theory Spec2Isabelle
  imports Main "HOL-Library.Word" "HOL-Library.Sublist" "HOL-Library.Multiset"
begin

section \<open>Values shared by the three layers\<close>

text \<open>
  A Go \<^verbatim>\<open>error\<close> is represented by the text its \<^verbatim>\<open>Error()\<close> method returns; a function
  returning \<^verbatim>\<open>error\<close> returns \<open>go_error option\<close>, with \<open>None\<close> for \<^verbatim>\<open>nil\<close>.
  \<^verbatim>\<open>fmt.Errorf\<close> with the verbs \<^verbatim>\<open>%s\<close>, \<^verbatim>\<open>%w\<close>, \<^verbatim>\<open>%d\<close> and \<^verbatim>\<open>%v\<close> is string concatenation.
\<close>

type_synonym go_error = string

definition digit_char :: "nat \<Rightarrow> char" where
  "digit_char d = ''0123456789'' ! d"

fun show_nat :: "nat \<Rightarrow> string" where
  "show_nat n = (if n < 10 then [digit_char n] else show_nat (n div 10) @ [digit_char (n mod 10)])"

declare show_nat.simps [simp del]

text \<open>The verb \<^verbatim>\<open>%d\<close> of package fmt.\<close>

definition show_int :: "int \<Rightarrow> string" where
  "show_int i = (if i < 0 then CHR ''-'' # show_nat (nat (- i)) else show_nat (nat i))"

text \<open>The verb \<^verbatim>\<open>%v\<close> on a slice of errors: the texts, separated by one space, in brackets.\<close>

fun join_errors :: "go_error list \<Rightarrow> string" where
  "join_errors [] = []"
| "join_errors [e] = e"
| "join_errors (e # es) = e @ '' '' @ join_errors es"

definition show_errors :: "go_error list \<Rightarrow> string" where
  "show_errors es = ''['' @ join_errors es @ '']''"

text \<open>
  Structured logging (zap): a log line is a level, a message and typed fields. Whatever
  the functions below do besides returning is recorded as a list of events, in program
  order: the log lines written, the lookups in the secret store and the calls of the
  DNS library's \<^verbatim>\<open>ExchangeContext\<close>.
\<close>

datatype zap_field =
    zap_String string string
  | zap_Strings string "string list"
  | zap_Int string int
  | zap_Error go_error

datatype level = InfoLevel | WarnLevel | ErrorLevel

section \<open>The DNS library (\<^verbatim>\<open>github.com/miekg/dns\<close>)\<close>

text \<open>
  The library is not part of the repository. The parts of it that the client calls are
  modelled after the library's documented behaviour: the message type with the fields
  the client sets or reads, and the functions \<^verbatim>\<open>Fqdn\<close>, \<^verbatim>\<open>SetUpdate\<close>, \<^verbatim>\<open>Insert\<close>,
  \<^verbatim>\<open>RemoveRRset\<close> and \<^verbatim>\<open>SetTsig\<close>. What \<^verbatim>\<open>ExchangeContext\<close> returns is the environment's.
\<close>

datatype rr_type = TypeSOA | TypeTXT | TypeTSIG

datatype rr_class = ClassINET | ClassANY

datatype opcode = OpcodeQuery | OpcodeUpdate

record RR_Header =
  Name :: string
  Rrtype :: rr_type
  Class :: rr_class
  Ttl :: "32 word"

record TSIG_data =
  Algorithm :: string
  TimeSigned :: "64 word"
  Fudge :: "16 word"
  OrigId :: "16 word"

text \<open>
  Resource records: a TXT record carries its character strings; the record \<open>ANY\<close> is
  the library's record without rdata (length 0 on the wire); a TSIG record carries the
  fields that \<^verbatim>\<open>SetTsig\<close> fills in.
\<close>

datatype RR =
    TXT RR_Header "string list"
  | ANY RR_Header
  | TSIG RR_Header TSIG_data

fun Header :: "RR \<Rightarrow> RR_Header" where
  "Header (TXT h _) = h"
| "Header (ANY h) = h"
| "Header (TSIG h _) = h"

fun rdata :: "RR \<Rightarrow> string list" where
  "rdata (TXT _ txt) = txt"
| "rdata (ANY _) = []"
| "rdata (TSIG _ _) = []"

fun set_Class :: "rr_class \<Rightarrow> RR \<Rightarrow> RR" where
  "set_Class c (TXT h txt) = TXT (h\<lparr>Class := c\<rparr>) txt"
| "set_Class c (ANY h) = ANY (h\<lparr>Class := c\<rparr>)"
| "set_Class c (TSIG h d) = TSIG (h\<lparr>Class := c\<rparr>) d"

record Question =
  Qname :: string
  Qtype :: rr_type
  Qclass :: rr_class

text \<open>
  \<^verbatim>\<open>dns.Msg\<close>, for requests and replies alike. \<open>Question\<close> is the Zone section of an
  update and \<open>Ns\<close> its Update section; \<open>Extra\<close> is the Additional section.
\<close>

record Msg =
  MsgId :: "16 word"
  Response :: bool
  Opcode :: opcode
  Truncated :: bool
  Rcode :: int
  Compress :: bool
  Question :: "Question list"
  Ns :: "RR list"
  Extra :: "RR list"

text \<open>\<^verbatim>\<open>new(dns.Msg)\<close>: the zero value.\<close>

definition new_Msg :: Msg where
  "new_Msg = \<lparr>MsgId = 0, Response = False, Opcode = OpcodeQuery, Truncated = False,
     Rcode = 0, Compress = False, Question = [], Ns = [], Extra = []\<rparr>"

text \<open>
  \<^verbatim>\<open>dns.IsFqdn\<close>: the name ends with a dot that is not escaped, that is, a dot preceded by
  an even number of backslashes. \<^verbatim>\<open>dns.Fqdn\<close> appends a dot to a name that is not
  fully qualified.
\<close>

definition IsFqdn :: "string \<Rightarrow> bool" where
  "IsFqdn s = (s \<noteq> [] \<and> last s = CHR ''.'' \<and>
     even (length (takeWhile (\<lambda>c. c = CHR 0x5C) (rev (butlast s)))))"

definition Fqdn :: "string \<Rightarrow> string" where
  "Fqdn s = (if IsFqdn s then s else s @ ''.'')"

text \<open>
  \<^verbatim>\<open>SetUpdate\<close> makes the message an UPDATE for zone \<open>z\<close>: a fresh message id (the
  library draws it at random; here it is an argument) and a Zone section of one entry.
\<close>

definition SetUpdate :: "16 word \<Rightarrow> string \<Rightarrow> Msg \<Rightarrow> Msg" where
  "SetUpdate fresh z m = m\<lparr>MsgId := fresh, Response := False, Opcode := OpcodeUpdate,
     Compress := False, Question := [\<lparr>Qname = z, Qtype = TypeSOA, Qclass = ClassINET\<rparr>]\<rparr>"

text \<open>
  \<^verbatim>\<open>Insert\<close> (RFC 2136, 2.5.1) appends the records to the Update section with the class
  of the zone. It panics on a message without a Zone section: \<open>None\<close>.
\<close>

definition Insert :: "RR list \<Rightarrow> Msg \<Rightarrow> Msg option" where
  "Insert rrs u = (case Question u of
       [] \<Rightarrow> None
     | q # _ \<Rightarrow> Some (u\<lparr>Ns := Ns u @ map (set_Class (Qclass q)) rrs\<rparr>))"

text \<open>
  \<^verbatim>\<open>RemoveRRset\<close> (RFC 2136, 2.5.2) appends, for each record given, a record without
  rdata that keeps the name and the type and has class ANY and TTL 0.
\<close>

definition RemoveRRset :: "RR list \<Rightarrow> Msg \<Rightarrow> Msg" where
  "RemoveRRset rrs u = u\<lparr>Ns := Ns u @
     map (\<lambda>r. ANY \<lparr>Name = Name (Header r), Rrtype = Rrtype (Header r),
                    Class = ClassANY, Ttl = 0\<rparr>) rrs\<rparr>"

text \<open>\<^verbatim>\<open>SetTsig\<close> appends a TSIG record to the Additional section.\<close>

definition SetTsig :: "string \<Rightarrow> string \<Rightarrow> 16 word \<Rightarrow> 64 word \<Rightarrow> Msg \<Rightarrow> Msg" where
  "SetTsig z algo fudge timesigned m = m\<lparr>Extra := Extra m @
     [TSIG \<lparr>Name = z, Rrtype = TypeTSIG, Class = ClassANY, Ttl = 0\<rparr>
           \<lparr>Algorithm = algo, TimeSigned = timesigned, Fudge = fudge, OrigId = MsgId m\<rparr>]\<rparr>"

text \<open>
  \<^verbatim>\<open>dns.RcodeToString\<close>, the library's table of mnemonics. A code that is not in the
  table gives the empty string, as a Go map does.
\<close>

definition RcodeToString :: "int \<Rightarrow> string" where
  "RcodeToString rc = (case map_of
     [(0, ''NOERROR''), (1, ''FORMERR''), (2, ''SERVFAIL''), (3, ''NXDOMAIN''),
      (4, ''NOTIMP''), (5, ''REFUSED''), (6, ''YXDOMAIN''), (7, ''YXRRSET''),
      (8, ''NXRRSET''), (9, ''NOTAUTH''), (10, ''NOTZONE''), (16, ''BADSIG''),
      (17, ''BADKEY''), (18, ''BADTIME''), (19, ''BADMODE''), (20, ''BADNAME''),
      (21, ''BADALG''), (22, ''BADTRUNC''), (23, ''BADCOOKIE'')] rc of
     None \<Rightarrow> [] | Some s \<Rightarrow> s)"

text \<open>
  \<^verbatim>\<open>dns.Client\<close>: \<open>Net\<close> is the transport, the empty string (the zero value) standing
  for UDP and \<^verbatim>\<open>"tcp"\<close> for TCP; \<open>Timeout\<close> is in nanoseconds.
\<close>

record Client =
  Net :: string
  Timeout :: int
  TsigSecret :: "(string \<times> string) list"

datatype event =
    LogEv level string "zap_field list"
  | SecretGetEv string string
  | ExchangeEv Client Msg string

text \<open>
  The event \<open>ExchangeEv\<close> is one call \<^verbatim>\<open>client.ExchangeContext(ctx, msg, address)\<close>, with
  the client, the message and the address handed to the library. Whether the library
  gets as far as sending is the library's affair: it signs and packs the message with
  the client's secret first, and returns an error without sending anything when the
  secret is not base64 or when the key name or the algorithm name of the TSIG record
  is not fully qualified. A call that returns a reply has sent the message.

  What the environment gives one single-server call: the message id drawn by
  \<^verbatim>\<open>SetUpdate\<close>, the clock read for the TSIG record, and \<^verbatim>\<open>ExchangeContext\<close> itself:
  its result, an error or the server's reply, as a function of the client (transport,
  timeout and TSIG secrets), the message and the address.
\<close>

record task_env =
  fresh_id :: "16 word"
  now_unix :: "64 word"
  outcome :: "Client \<Rightarrow> Msg \<Rightarrow> string \<Rightarrow> go_error + Msg"

section \<open>The RFC 2136 client (\<^verbatim>\<open>operator/internal/dns/rfc2136.go\<close>)\<close>

record RFC2136Client =
  server :: string
  zone :: string
  tsigKey :: string
  tsigAlg :: string
  tsigSec :: string
  timeout :: int

definition NewRFC2136Client :: "string \<Rightarrow> string \<Rightarrow> string \<Rightarrow> string \<Rightarrow> string \<Rightarrow> RFC2136Client" where
  "NewRFC2136Client srv z tk ta ts =
     \<lparr>server = srv, zone = z, tsigKey = tk, tsigAlg = ta, tsigSec = ts,
      timeout = 10 * 1000000000\<rparr>"

text \<open>
  The Go type \<^verbatim>\<open>int\<close> of \<open>ttl\<close> is taken to be 64 bits wide; \<^verbatim>\<open>uint32(ttl)\<close> keeps its
  low 32 bits.
\<close>

definition add_msg :: "RFC2136Client \<Rightarrow> task_env \<Rightarrow> string \<Rightarrow> string \<Rightarrow> 64 word \<Rightarrow> Msg option" where
  "add_msg c te fqdn val ttl =
     (let msg = SetUpdate (fresh_id te) (Fqdn (zone c)) new_Msg;
          rr = TXT \<lparr>Name = Fqdn fqdn, Rrtype = TypeTXT, Class = ClassINET, Ttl = ucast ttl\<rparr> [val]
      in case Insert [rr] msg of
           None \<Rightarrow> None
         | Some msg \<Rightarrow> Some (SetTsig (tsigKey c) (tsigAlg c) 300 (now_unix te) msg))"

definition rfc_client :: "RFC2136Client \<Rightarrow> Client" where
  "rfc_client c = \<lparr>Net = [], Timeout = timeout c, TsigSecret = [(tsigKey c, tsigSec c)]\<rparr>"

text \<open>
  \<^verbatim>\<open>RFC2136Client.AddTXTRecord\<close>. The result is the error returned and the events in
  program order. The panic of \<^verbatim>\<open>Insert\<close> ends the call with the panic's text and
  without a call of the library.
\<close>

definition RFC2136Client_AddTXTRecord ::
  "RFC2136Client \<Rightarrow> task_env \<Rightarrow> string \<Rightarrow> string \<Rightarrow> 64 word \<Rightarrow> go_error option \<times> event list" where
  "RFC2136Client_AddTXTRecord c te fqdn val ttl =
     (let entry = [LogEv InfoLevel ''Adding TXT record''
            [zap_String ''fqdn'' fqdn, zap_String ''value'' val,
             zap_String ''server'' (server c), zap_String ''zone'' (zone c)]]
      in case add_msg c te fqdn val ttl of
           None \<Rightarrow> (Some ''panic: dns: empty question section'', entry)
         | Some msg \<Rightarrow>
             (let sent = entry @ [ExchangeEv (rfc_client c) msg (server c @ '':53'')]
              in case outcome te (rfc_client c) msg (server c @ '':53'') of
                   Inl err \<Rightarrow>
                     (Some (''failed to send DNS update to '' @ server c @ '': '' @ err),
                      sent @ [LogEv ErrorLevel ''Failed to send DNS update''
                        [zap_String ''fqdn'' fqdn, zap_String ''server'' (server c),
                         zap_Error err]])
                 | Inr reply \<Rightarrow>
                     if Rcode reply \<noteq> 0 then
                       (Some (''DNS update failed: '' @ RcodeToString (Rcode reply) @
                              '' (rcode: '' @ show_int (Rcode reply) @ '')''),
                        sent @ [LogEv ErrorLevel ''DNS update failed''
                          [zap_String ''fqdn'' fqdn, zap_String ''server'' (server c),
                           zap_Int ''rcode'' (Rcode reply),
                           zap_String ''rcode_name'' (RcodeToString (Rcode reply))]])
                     else
                       (None,
                        sent @ [LogEv InfoLevel ''TXT record added successfully''
                          [zap_String ''fqdn'' fqdn, zap_String ''server'' (server c)]])))"

definition delete_msg :: "RFC2136Client \<Rightarrow> task_env \<Rightarrow> string \<Rightarrow> Msg" where
  "delete_msg c te fqdn =
     (let msg = SetUpdate (fresh_id te) (Fqdn (zone c)) new_Msg;
          rr = TXT \<lparr>Name = Fqdn fqdn, Rrtype = TypeTXT, Class = ClassINET, Ttl = 0\<rparr> [];
          msg = RemoveRRset [rr] msg
      in SetTsig (tsigKey c) (tsigAlg c) 300 (now_unix te) msg)"

text \<open>\<^verbatim>\<open>RFC2136Client.DeleteTXTRecord\<close>: it has no parameter for the record's value.\<close>

definition RFC2136Client_DeleteTXTRecord ::
  "RFC2136Client \<Rightarrow> task_env \<Rightarrow> string \<Rightarrow> go_error option \<times> event list" where
  "RFC2136Client_DeleteTXTRecord c te fqdn =
     (let entry = [LogEv InfoLevel ''Deleting TXT record''
            [zap_String ''fqdn'' fqdn, zap_String ''server'' (server c),
             zap_String ''zone'' (zone c)]];
          sent = entry @ [ExchangeEv (rfc_client c) (delete_msg c te fqdn) (server c @ '':53'')]
      in case outcome te (rfc_client c) (delete_msg c te fqdn) (server c @ '':53'') of
           Inl err \<Rightarrow>
             (Some (''failed to send DNS delete to '' @ server c @ '': '' @ err),
              sent @ [LogEv ErrorLevel ''Failed to send DNS delete''
                [zap_String ''fqdn'' fqdn, zap_String ''server'' (server c), zap_Error err]])
         | Inr reply \<Rightarrow>
             if Rcode reply \<noteq> 0 then
               (Some (''DNS delete failed: '' @ RcodeToString (Rcode reply) @
                      '' (rcode: '' @ show_int (Rcode reply) @ '')''),
                sent @ [LogEv ErrorLevel ''DNS delete failed''
                  [zap_String ''fqdn'' fqdn, zap_String ''server'' (server c),
                   zap_Int ''rcode'' (Rcode reply),
                   zap_String ''rcode_name'' (RcodeToString (Rcode reply))]])
             else
               (None,
                sent @ [LogEv InfoLevel ''TXT record deleted successfully''
                  [zap_String ''fqdn'' fqdn, zap_String ''server'' (server c)]]))"

section \<open>The fan-out coordinator (\<^verbatim>\<open>operator/internal/webhook/multi_server.go\<close>)\<close>

text \<open>
  The fields \<open>zone\<close>, \<open>tsigKey\<close>, \<open>tsigAlg\<close> and \<open>tsigSec\<close> of the Go struct carry the
  prefix \<open>m_\<close> here, since the client's record has fields of the same names.
\<close>

record MultiServerDNS =
  servers :: "string list"
  m_zone :: string
  m_tsigKey :: string
  m_tsigAlg :: string
  m_tsigSec :: string
  minSuccess :: int

definition NewMultiServerDNS :: "string list \<Rightarrow> string \<Rightarrow> string \<Rightarrow> string \<Rightarrow> string \<Rightarrow> MultiServerDNS" where
  "NewMultiServerDNS srvs z tk ta ts =
     (let minSuccess = int (length srvs) div 2 + 1;
          minSuccess = (if minSuccess < 1 then 1 else minSuccess)
      in \<lparr>servers = srvs, m_zone = z, m_tsigKey = tk, m_tsigAlg = ta, m_tsigSec = ts,
          minSuccess = minSuccess\<rparr>)"

text \<open>
  The body of the goroutine started for one server: a new client for that server, one
  call of it, and either an error for the channel or a success to count.
\<close>

definition add_worker ::
  "MultiServerDNS \<Rightarrow> string \<Rightarrow> string \<Rightarrow> 64 word \<Rightarrow> task_env \<Rightarrow> string \<Rightarrow> go_error option \<times> event list" where
  "add_worker m fqdn val ttl te srv =
     (let client = NewRFC2136Client srv (m_zone m) (m_tsigKey m) (m_tsigAlg m) (m_tsigSec m)
      in case RFC2136Client_AddTXTRecord client te fqdn val ttl of
           (Some err, evs) \<Rightarrow>
             (Some (''server '' @ srv @ '': '' @ err),
              evs @ [LogEv ErrorLevel ''Failed to add TXT record on server''
                [zap_String ''server'' srv, zap_String ''fqdn'' fqdn, zap_Error err]])
         | (None, evs) \<Rightarrow>
             (None,
              evs @ [LogEv InfoLevel ''Successfully added TXT record on server''
                [zap_String ''server'' srv, zap_String ''fqdn'' fqdn]]))"

definition delete_worker ::
  "MultiServerDNS \<Rightarrow> string \<Rightarrow> task_env \<Rightarrow> string \<Rightarrow> go_error option \<times> event list" where
  "delete_worker m fqdn te srv =
     (let client = NewRFC2136Client srv (m_zone m) (m_tsigKey m) (m_tsigAlg m) (m_tsigSec m)
      in case RFC2136Client_DeleteTXTRecord client te fqdn of
           (Some err, evs) \<Rightarrow>
             (Some (''server '' @ srv @ '': '' @ err),
              evs @ [LogEv ErrorLevel ''Failed to delete TXT record on server''
                [zap_String ''server'' srv, zap_String ''fqdn'' fqdn, zap_Error err]])
         | (None, evs) \<Rightarrow>
             (None,
              evs @ [LogEv InfoLevel ''Successfully deleted TXT record on server''
                [zap_String ''server'' srv, zap_String ''fqdn'' fqdn]]))"

text \<open>
  The loop over the servers, the wait for all goroutines and the draining of the error
  channel, which both operations of the coordinator share word for word. Task \<open>i\<close> is
  the goroutine of the \<open>i\<close>-th server and meets the environment \<open>env i\<close>. The goroutines
  run concurrently; the model runs them to completion one after the other in the order
  of the list, which is one of the schedules. Each task's result depends on its own
  environment only, so the number of successes and the set of errors are those of every
  schedule; the order of the errors and of the log lines is that of this schedule.
  The result is the success count, the errors read from the channel, and the events.
\<close>

fun fan_out ::
  "(task_env \<Rightarrow> string \<Rightarrow> go_error option \<times> event list) \<Rightarrow> (nat \<Rightarrow> task_env) \<Rightarrow> nat \<Rightarrow>
   string list \<Rightarrow> nat \<times> go_error list \<times> event list" where
  "fan_out worker env i [] = (0, [], [])"
| "fan_out worker env i (srv # rest) =
     (case worker (env i) srv of (r, evs) \<Rightarrow>
        (case fan_out worker env (Suc i) rest of (successCount, errors, evs') \<Rightarrow>
           (case r of
              None \<Rightarrow> (Suc successCount, errors, evs @ evs')
            | Some err \<Rightarrow> (successCount, err # errors, evs @ evs'))))"

text \<open>
  The same loop with the tasks completing in a given order, a task being a server with
  its position in the list: \<open>fan_out\<close> is the case in which they complete in the order
  of the list. Whatever the order, the success count and the errors (as a multiset) are
  the same (\<open>any_completion_order\<close> below); the order of the errors in the channel, and
  with it their order in the text of the aggregate error, follows the order of
  completion.
\<close>

fun complete_in_order ::
  "(task_env \<Rightarrow> string \<Rightarrow> go_error option \<times> event list) \<Rightarrow> (nat \<Rightarrow> task_env) \<Rightarrow>
   (string \<times> nat) list \<Rightarrow> nat \<times> go_error list \<times> event list" where
  "complete_in_order worker env [] = (0, [], [])"
| "complete_in_order worker env (t # ts) =
     (case worker (env (snd t)) (fst t) of (r, evs) \<Rightarrow>
        (case complete_in_order worker env ts of (successCount, errors, evs') \<Rightarrow>
           (case r of
              None \<Rightarrow> (Suc successCount, errors, evs @ evs')
            | Some err \<Rightarrow> (successCount, err # errors, evs @ evs'))))"

definition MultiServerDNS_AddTXTRecord ::
  "MultiServerDNS \<Rightarrow> (nat \<Rightarrow> task_env) \<Rightarrow> string \<Rightarrow> string \<Rightarrow> 64 word \<Rightarrow> go_error option \<times> event list" where
  "MultiServerDNS_AddTXTRecord m env fqdn val ttl =
     (let entry = [LogEv InfoLevel ''Adding TXT record to multiple servers''
            [zap_String ''fqdn'' fqdn, zap_String ''value'' val,
             zap_Strings ''servers'' (servers m)]]
      in case fan_out (add_worker m fqdn val ttl) env 0 (servers m) of
           (successCount, errors, evs) \<Rightarrow>
             if int successCount < minSuccess m then
               (Some (''only '' @ show_int (int successCount) @ ''/'' @
                      show_int (int (length (servers m))) @
                      '' servers updated successfully (minimum '' @
                      show_int (minSuccess m) @ '' required): '' @ show_errors errors),
                entry @ evs @ [LogEv ErrorLevel ''Insufficient successful updates''
                  [zap_Int ''success_count'' (int successCount),
                   zap_Int ''min_required'' (minSuccess m),
                   zap_Int ''total_servers'' (int (length (servers m))),
                   zap_Int ''errors'' (int (length errors))]])
             else
               (None,
                entry @ evs @
                (if length errors > 0 then
                   [LogEv WarnLevel ''Some servers failed, but minimum success threshold met''
                      [zap_Int ''success_count'' (int successCount),
                       zap_Int ''error_count'' (int (length errors))]]
                 else []) @
                [LogEv InfoLevel ''TXT record added successfully to multiple servers''
                   [zap_String ''fqdn'' fqdn, zap_Int ''success_count'' (int successCount),
                    zap_Int ''total_servers'' (int (length (servers m)))]]))"

definition MultiServerDNS_DeleteTXTRecord ::
  "MultiServerDNS \<Rightarrow> (nat \<Rightarrow> task_env) \<Rightarrow> string \<Rightarrow> go_error option \<times> event list" where
  "MultiServerDNS_DeleteTXTRecord m env fqdn =
     (let entry = [LogEv InfoLevel ''Deleting TXT record from multiple servers''
            [zap_String ''fqdn'' fqdn, zap_Strings ''servers'' (servers m)]]
      in case fan_out (delete_worker m fqdn) env 0 (servers m) of
           (successCount, errors, evs) \<Rightarrow>
             if successCount = 0 then
               (Some (''failed to delete on all servers: '' @ show_errors errors),
                entry @ evs @ [LogEv ErrorLevel ''Failed to delete TXT record on all servers''
                  [zap_Int ''total_servers'' (int (length (servers m))),
                   zap_Int ''errors'' (int (length errors))]])
             else
               (None,
                entry @ evs @
                (if length errors > 0 then
                   [LogEv WarnLevel ''Some servers failed during deletion''
                      [zap_Int ''success_count'' (int successCount),
                       zap_Int ''error_count'' (int (length errors))]]
                 else []) @
                [LogEv InfoLevel ''TXT record deleted successfully from multiple servers''
                   [zap_String ''fqdn'' fqdn, zap_Int ''success_count'' (int successCount),
                    zap_Int ''total_servers'' (int (length (servers m)))]]))"

section \<open>The challenge handler (\<^verbatim>\<open>operator/internal/webhook/dns01_handler.go\<close>)\<close>

record Config =
  Servers :: "string list"
  Zone :: string
  TSIGKeyName :: string
  TSIGAlgorithm :: string
  TSIGSecretName :: string
  TSIGSecretKey :: string
  TTL :: "64 word"

text \<open>
  The configuration document. \<^verbatim>\<open>encoding/json\<close> is not part of the repository, so a
  document is represented by what \<^verbatim>\<open>json.Unmarshal\<close> does with it: it fails with an error
  (bytes that are not JSON, or a value of the wrong JSON type for its field, such as
  \<^verbatim>\<open>"ttl": "sixty"\<close>), or it stores a value in each field the document specifies and leaves
  the other fields of the struct as they are. A field is specified (\<open>Some\<close>) when the
  document has a member of its name with a value other than \<^verbatim>\<open>null\<close>; for \<open>servers\<close> the
  value \<^verbatim>\<open>null\<close> stores the empty list. \<open>NoConfig\<close> is the nil pointer or the document of
  length 0.
\<close>

record config_doc =
  doc_servers :: "string list option"
  doc_zone :: "string option"
  doc_tsigKeyName :: "string option"
  doc_tsigAlgorithm :: "string option"
  doc_tsigSecretName :: "string option"
  doc_tsigSecretKey :: "string option"
  doc_ttl :: "64 word option"

datatype raw_config = NoConfig | Undecodable go_error | Document config_doc

definition store :: "'a option \<Rightarrow> 'a \<Rightarrow> 'a" where
  "store v old = (case v of None \<Rightarrow> old | Some x \<Rightarrow> x)"

definition Unmarshal :: "config_doc \<Rightarrow> Config \<Rightarrow> Config" where
  "Unmarshal d c =
     \<lparr>Servers = store (doc_servers d) (Servers c),
      Zone = store (doc_zone d) (Zone c),
      TSIGKeyName = store (doc_tsigKeyName d) (TSIGKeyName c),
      TSIGAlgorithm = store (doc_tsigAlgorithm d) (TSIGAlgorithm c),
      TSIGSecretName = store (doc_tsigSecretName d) (TSIGSecretName c),
      TSIGSecretKey = store (doc_tsigSecretKey d) (TSIGSecretKey c),
      TTL = store (doc_ttl d) (TTL c)\<rparr>"

definition parseConfig :: "raw_config \<Rightarrow> go_error + Config" where
  "parseConfig cfgJSON =
     (let config = \<lparr>Servers = [], Zone = [], TSIGKeyName = [],
            TSIGAlgorithm = ''hmac-sha256'', TSIGSecretName = [],
            TSIGSecretKey = ''secret'', TTL = 60\<rparr>
      in case cfgJSON of
           NoConfig \<Rightarrow> Inl ''config is empty''
         | Undecodable err \<Rightarrow> Inl (''failed to unmarshal config: '' @ err)
         | Document d \<Rightarrow>
             (let config = Unmarshal d config
              in if length (Servers config) = 0 then Inl ''servers list is required''
                 else if Zone config = [] then Inl ''zone is required''
                 else if TSIGKeyName config = [] then Inl ''tsigKeyName is required''
                 else if TSIGSecretName config = [] then Inl ''tsigSecretName is required''
                 else Inr config))"

text \<open>
  The secret store behind the Kubernetes client: for a namespace and a secret name, an
  error or the secret's data, a map from keys to byte strings.
\<close>

type_synonym kube = "string \<Rightarrow> string \<Rightarrow> go_error + (string \<rightharpoonup> string)"

text \<open>The solver; \<open>client = None\<close> is the nil client before \<^verbatim>\<open>Initialize\<close>.\<close>

record DNS01Solver =
  client :: "kube option"

record ChallengeRequest =
  ResolvedFQDN :: string
  Key :: string
  ResourceNamespace :: string
  Config :: raw_config

definition getTSIGSecret ::
  "DNS01Solver \<Rightarrow> string \<Rightarrow> string \<Rightarrow> string \<Rightarrow> (go_error + string) \<times> event list" where
  "getTSIGSecret s namespace secretName key =
     (case client s of
        None \<Rightarrow> (Inl ''kubernetes client not initialized'', [])
      | Some k \<Rightarrow>
          (case k namespace secretName of
             Inl err \<Rightarrow>
               (Inl (''failed to get secret '' @ namespace @ ''/'' @ secretName @ '': '' @ err),
                [SecretGetEv namespace secretName])
           | Inr secretData \<Rightarrow>
               (case secretData key of
                  None \<Rightarrow>
                    (Inl (''key '' @ key @ '' not found in secret '' @ namespace @ ''/'' @
                          secretName),
                     [SecretGetEv namespace secretName])
                | Some v \<Rightarrow> (Inr v, [SecretGetEv namespace secretName]))))"

definition Present ::
  "DNS01Solver \<Rightarrow> (nat \<Rightarrow> task_env) \<Rightarrow> ChallengeRequest \<Rightarrow> go_error option \<times> event list" where
  "Present s env ch =
     (let entry = [LogEv InfoLevel ''Presenting DNS01 challenge''
            [zap_String ''fqdn'' (ResolvedFQDN ch), zap_String ''key'' (Key ch),
             zap_String ''namespace'' (ResourceNamespace ch)]]
      in case parseConfig (Config ch) of
           Inl err \<Rightarrow> (Some (''failed to parse config: '' @ err), entry)
         | Inr config \<Rightarrow>
             (case getTSIGSecret s (ResourceNamespace ch) (TSIGSecretName config)
                     (TSIGSecretKey config) of
                (Inl err, evs) \<Rightarrow> (Some (''failed to get TSIG secret: '' @ err), entry @ evs)
              | (Inr tsigSecret, evs) \<Rightarrow>
                  (let dnsManager = NewMultiServerDNS (Servers config) (Zone config)
                         (TSIGKeyName config) (TSIGAlgorithm config) tsigSecret
                   in case MultiServerDNS_AddTXTRecord dnsManager env (ResolvedFQDN ch)
                             (Key ch) (TTL config) of
                        (Some err, evs') \<Rightarrow>
                          (Some (''failed to add TXT record: '' @ err), entry @ evs @ evs')
                      | (None, evs') \<Rightarrow>
                          (None,
                           entry @ evs @ evs' @
                           [LogEv InfoLevel ''DNS01 challenge presented successfully''
                              [zap_String ''fqdn'' (ResolvedFQDN ch),
                               zap_Int ''servers'' (int (length (Servers config)))]]))))"

definition CleanUp ::
  "DNS01Solver \<Rightarrow> (nat \<Rightarrow> task_env) \<Rightarrow> ChallengeRequest \<Rightarrow> go_error option \<times> event list" where
  "CleanUp s env ch =
     (let entry = [LogEv InfoLevel ''Cleaning up DNS01 challenge''
            [zap_String ''fqdn'' (ResolvedFQDN ch), zap_String ''key'' (Key ch),
             zap_String ''namespace'' (ResourceNamespace ch)]]
      in case parseConfig (Config ch) of
           Inl err \<Rightarrow> (Some (''failed to parse config: '' @ err), entry)
         | Inr config \<Rightarrow>
             (case getTSIGSecret s (ResourceNamespace ch) (TSIGSecretName config)
                     (TSIGSecretKey config) of
                (Inl err, evs) \<Rightarrow> (Some (''failed to get TSIG secret: '' @ err), entry @ evs)
              | (Inr tsigSecret, evs) \<Rightarrow>
                  (let dnsManager = NewMultiServerDNS (Servers config) (Zone config)
                         (TSIGKeyName config) (TSIGAlgorithm config) tsigSecret
                   in case MultiServerDNS_DeleteTXTRecord dnsManager env (ResolvedFQDN ch) of
                        (Some err, evs') \<Rightarrow>
                          (Some (''failed to delete TXT record: '' @ err), entry @ evs @ evs')
                      | (None, evs') \<Rightarrow>
                          (None,
                           entry @ evs @ evs' @
                           [LogEv InfoLevel ''DNS01 challenge cleaned up successfully''
                              [zap_String ''fqdn'' (ResolvedFQDN ch),
                               zap_Int ''servers'' (int (length (Servers config)))]]))))"

section \<open>Reading the events\<close>

fun log_of :: "event \<Rightarrow> (level \<times> string \<times> zap_field list) list" where
  "log_of (LogEv l msg fs) = [(l, msg, fs)]"
| "log_of _ = []"

fun lookup_of :: "event \<Rightarrow> (string \<times> string) list" where
  "lookup_of (SecretGetEv namespace secretName) = [(namespace, secretName)]"
| "lookup_of _ = []"

fun exchange_of :: "event \<Rightarrow> (string \<times> string \<times> Msg) list" where
  "exchange_of (ExchangeEv cl msg address) = [(Net cl, address, msg)]"
| "exchange_of _ = []"

text \<open>The log lines written, in order: level, message and fields.\<close>

definition log_lines :: "event list \<Rightarrow> (level \<times> string \<times> zap_field list) list" where
  "log_lines evs = concat (map log_of evs)"

text \<open>The lookups in the secret store, in order: namespace and name of the secret.\<close>

definition secret_lookups :: "event list \<Rightarrow> (string \<times> string) list" where
  "secret_lookups evs = concat (map lookup_of evs)"

text \<open>
  The calls of \<^verbatim>\<open>ExchangeContext\<close>, in order: the client's transport, the address and the
  message handed to the library.
\<close>

definition exchanges :: "event list \<Rightarrow> (string \<times> string \<times> Msg) list" where
  "exchanges evs = concat (map exchange_of evs)"

text \<open>Of a message sent: the zone named, and the names and TTLs of its Update section.\<close>

definition zone_of :: "Msg \<Rightarrow> string list" where
  "zone_of msg = map Qname (Question msg)"

definition update_names :: "Msg \<Rightarrow> string list" where
  "update_names msg = map (Name \<circ> Header) (Ns msg)"

definition update_ttls :: "Msg \<Rightarrow> 32 word list" where
  "update_ttls msg = map (Ttl \<circ> Header) (Ns msg)"

text \<open>
  The secret store \<open>k\<close> with every stored value \<open>v\<close> replaced by \<open>f v\<close>: the two stores
  differ in the secret values only.
\<close>

definition with_secrets :: "(string \<Rightarrow> string) \<Rightarrow> kube \<Rightarrow> kube" where
  "with_secrets f k = (\<lambda>namespace secretName.
     case k namespace secretName of
       Inl err \<Rightarrow> Inl err
     | Inr secretData \<Rightarrow> Inr (map_option f \<circ> secretData))"

text \<open>
  In the environment \<open>env\<close> the library's \<^verbatim>\<open>ExchangeContext\<close> returns the same result for a
  client that holds the secret \<open>f v\<close> as for a client that holds the secret \<open>v\<close>, in
  every task.
\<close>

definition library_blind_to :: "(string \<Rightarrow> string) \<Rightarrow> (nat \<Rightarrow> task_env) \<Rightarrow> bool" where
  "library_blind_to f env = (\<forall>i cl msg address.
     outcome (env i) (cl\<lparr>TsigSecret := map (apsnd f) (TsigSecret cl)\<rparr>) msg address =
     outcome (env i) cl msg address)"

text \<open>
  The tasks of a fan-out: every configured server with its position in the list. The
  single-server call of a task is the call that the task's goroutine makes: a client
  for the task's server with the coordinator's zone and credentials, in the task's
  environment.
\<close>

definition tasks :: "string list \<Rightarrow> (string \<times> nat) list" where
  "tasks srvs = zip srvs [0..<length srvs]"

definition single_add ::
  "MultiServerDNS \<Rightarrow> (nat \<Rightarrow> task_env) \<Rightarrow> string \<Rightarrow> string \<Rightarrow> 64 word \<Rightarrow> string \<times> nat \<Rightarrow>
   go_error option \<times> event list" where
  "single_add m env fqdn val ttl t =
     RFC2136Client_AddTXTRecord
       (NewRFC2136Client (fst t) (m_zone m) (m_tsigKey m) (m_tsigAlg m) (m_tsigSec m))
       (env (snd t)) fqdn val ttl"

definition single_delete ::
  "MultiServerDNS \<Rightarrow> (nat \<Rightarrow> task_env) \<Rightarrow> string \<Rightarrow> string \<times> nat \<Rightarrow> go_error option \<times> event list" where
  "single_delete m env fqdn t =
     RFC2136Client_DeleteTXTRecord
       (NewRFC2136Client (fst t) (m_zone m) (m_tsigKey m) (m_tsigAlg m) (m_tsigSec m))
       (env (snd t)) fqdn"

text \<open>The number of servers whose single-server call succeeds.\<close>

definition add_successes :: "MultiServerDNS \<Rightarrow> (nat \<Rightarrow> task_env) \<Rightarrow> string \<Rightarrow> string \<Rightarrow> 64 word \<Rightarrow> nat" where
  "add_successes m env fqdn val ttl =
     length (filter (\<lambda>t. fst (single_add m env fqdn val ttl t) = None) (tasks (servers m)))"

definition delete_successes :: "MultiServerDNS \<Rightarrow> (nat \<Rightarrow> task_env) \<Rightarrow> string \<Rightarrow> nat" where
  "delete_successes m env fqdn =
     length (filter (\<lambda>t. fst (single_delete m env fqdn t) = None) (tasks (servers m)))"

text \<open>A failing server named with its error cause, as the coordinator reports it.\<close>

definition failure_of :: "string \<Rightarrow> go_error option \<Rightarrow> go_error list" where
  "failure_of srv r = (case r of None \<Rightarrow> [] | Some err \<Rightarrow> [''server '' @ srv @ '': '' @ err])"

definition add_failures ::
  "MultiServerDNS \<Rightarrow> (nat \<Rightarrow> task_env) \<Rightarrow> string \<Rightarrow> string \<Rightarrow> 64 word \<Rightarrow> go_error list" where
  "add_failures m env fqdn val ttl =
     concat (map (\<lambda>t. failure_of (fst t) (fst (single_add m env fqdn val ttl t)))
       (tasks (servers m)))"

definition delete_failures :: "MultiServerDNS \<Rightarrow> (nat \<Rightarrow> task_env) \<Rightarrow> string \<Rightarrow> go_error list" where
  "delete_failures m env fqdn =
     concat (map (\<lambda>t. failure_of (fst t) (fst (single_delete m env fqdn t)))
       (tasks (servers m)))"

section \<open>Concrete inputs\<close>

text \<open>
  In the concrete environments the library behaves as miekg/dns does on the inputs
  used below: it refuses, before sending anything, a message whose TSIG key name or
  algorithm name is not fully qualified, and otherwise the exchange has the result
  given. The credentials used below are a fully qualified key name and algorithm name
  and a secret that is base64, so that the library signs and sends.
\<close>

definition tsig_names_qualified :: "Msg \<Rightarrow> bool" where
  "tsig_names_qualified msg = list_all
     (\<lambda>rr. case rr of TSIG h d \<Rightarrow> IsFqdn (Name h) \<and> IsFqdn (Algorithm d) | _ \<Rightarrow> True)
     (Extra msg)"

definition answering :: "go_error + Msg \<Rightarrow> Client \<Rightarrow> Msg \<Rightarrow> string \<Rightarrow> go_error + Msg" where
  "answering r cl msg address =
     (if tsig_names_qualified msg then r else Inl ''dns: domain must be fully qualified'')"

text \<open>
  Environments of one task: the server replies with a given RCODE and TC bit, or the
  exchange times out.
\<close>

definition reply_with :: "int \<Rightarrow> bool \<Rightarrow> task_env" where
  "reply_with rc tc = \<lparr>fresh_id = 4660, now_unix = 1700000000,
     outcome = answering (Inr (new_Msg\<lparr>MsgId := 4660, Response := True,
       Opcode := OpcodeUpdate, Truncated := tc, Rcode := rc\<rparr>))\<rparr>"

definition timed_out :: task_env where
  "timed_out = \<lparr>fresh_id = 4660, now_unix = 1700000000,
     outcome = answering (Inl ''i/o timeout'')\<rparr>"

definition all_noerror :: "nat \<Rightarrow> task_env" where
  "all_noerror i = reply_with 0 False"

definition acme_name :: string where
  "acme_name = ''_acme-challenge.app.example.com.''"

definition four_servers :: MultiServerDNS where
  "four_servers = NewMultiServerDNS [''a'', ''b'', ''c'', ''d''] ''example.com'' ''acme-key.''
     ''hmac-sha256.'' ''c2VjcmV0''"

text \<open>Servers \<open>a\<close> and \<open>b\<close> answer REFUSED; \<open>c\<close> and \<open>d\<close> answer NOERROR, or time out.\<close>

definition two_of_four :: "nat \<Rightarrow> task_env" where
  "two_of_four i = (if i < 2 then reply_with 5 False else reply_with 0 False)"

definition none_of_four :: "nat \<Rightarrow> task_env" where
  "none_of_four i = (if i < 2 then reply_with 5 False else timed_out)"

definition example_client :: RFC2136Client where
  "example_client = NewRFC2136Client ''10.0.0.1'' ''example.com'' ''acme-key.''
     ''hmac-sha256.'' ''c2VjcmV0''"

text \<open>
  A secret store with one secret, \<open>tsig-secret\<close> in namespace \<open>cert-manager\<close>, and a
  solver initialized with it.
\<close>

definition example_store :: kube where
  "example_store = (\<lambda>namespace secretName.
     if namespace = ''cert-manager'' \<and> secretName = ''tsig-secret''
     then Inr (\<lambda>key. if key = ''secret'' then Some ''c2VjcmV0'' else None)
     else Inl ''secret not found'')"

definition example_solver :: DNS01Solver where
  "example_solver = \<lparr>client = Some example_store\<rparr>"

definition example_document :: config_doc where
  "example_document = \<lparr>doc_servers = Some [''10.0.0.1''], doc_zone = Some ''example.com'',
     doc_tsigKeyName = Some ''acme-key.'', doc_tsigAlgorithm = Some ''hmac-sha256.'',
     doc_tsigSecretName = Some ''tsig-secret'', doc_tsigSecretKey = None, doc_ttl = None\<rparr>"

definition example_config :: Config where
  "example_config = \<lparr>Servers = [''10.0.0.1''], Zone = ''example.com'',
     TSIGKeyName = ''acme-key.'', TSIGAlgorithm = ''hmac-sha256.'',
     TSIGSecretName = ''tsig-secret'', TSIGSecretKey = ''secret'', TTL = 60\<rparr>"

definition example_request :: ChallengeRequest where
  "example_request = \<lparr>ResolvedFQDN = acme_name, Key = ''tokenA'',
     ResourceNamespace = ''cert-manager'', Config = Document example_document\<rparr>"

text \<open>The secret of the example store replaced by another secret that is base64.\<close>

definition other_secret :: "string \<Rightarrow> string" where
  "other_secret v = (if v = ''c2VjcmV0'' then ''b3RoZXI='' else v)"

text \<open>
  The example request for a name that is not in the configured zone, and with a TTL of
  \<open>-1\<close> in the configuration.
\<close>

definition outside_request :: ChallengeRequest where
  "outside_request = example_request\<lparr>ResolvedFQDN := ''_acme-challenge.evil.org.''\<rparr>"

definition minus_one_request :: ChallengeRequest where
  "minus_one_request = example_request\<lparr>Config := Document (example_document\<lparr>doc_ttl := Some (- 1)\<rparr>)\<rparr>"

section \<open>Properties\<close>

subsection \<open>Auxiliary facts\<close>

lemma Insert_SetUpdate:
  "Insert rrs (SetUpdate i z m) =
     Some ((SetUpdate i z m)\<lparr>Ns := Ns m @ map (set_Class ClassINET) rrs\<rparr>)"
  by (simp add: Insert_def SetUpdate_def)

lemma log_lines_simps [simp]:
  "log_lines [] = []"
  "log_lines (e # es) = log_of e @ log_lines es"
  "log_lines (xs @ ys) = log_lines xs @ log_lines ys"
  by (simp_all add: log_lines_def)

lemma exchanges_simps [simp]:
  "exchanges [] = []"
  "exchanges (e # es) = exchange_of e @ exchanges es"
  "exchanges (xs @ ys) = exchanges xs @ exchanges ys"
  by (simp_all add: exchanges_def)

lemma secret_lookups_simps [simp]:
  "secret_lookups [] = []"
  "secret_lookups (e # es) = lookup_of e @ secret_lookups es"
  "secret_lookups (xs @ ys) = secret_lookups xs @ secret_lookups ys"
  by (simp_all add: secret_lookups_def)

lemma add_msg_eq:
  "add_msg c te fqdn val ttl = Some
     \<lparr>MsgId = fresh_id te, Response = False, Opcode = OpcodeUpdate, Truncated = False,
      Rcode = 0, Compress = False,
      Question = [\<lparr>Qname = Fqdn (zone c), Qtype = TypeSOA, Qclass = ClassINET\<rparr>],
      Ns = [TXT \<lparr>Name = Fqdn fqdn, Rrtype = TypeTXT, Class = ClassINET, Ttl = ucast ttl\<rparr> [val]],
      Extra = [TSIG \<lparr>Name = tsigKey c, Rrtype = TypeTSIG, Class = ClassANY, Ttl = 0\<rparr>
                 \<lparr>Algorithm = tsigAlg c, TimeSigned = now_unix te, Fudge = 300,
                  OrigId = fresh_id te\<rparr>]\<rparr>"
  by (simp add: add_msg_def Insert_def SetUpdate_def SetTsig_def new_Msg_def)

lemma delete_msg_eq:
  "delete_msg c te fqdn =
     \<lparr>MsgId = fresh_id te, Response = False, Opcode = OpcodeUpdate, Truncated = False,
      Rcode = 0, Compress = False,
      Question = [\<lparr>Qname = Fqdn (zone c), Qtype = TypeSOA, Qclass = ClassINET\<rparr>],
      Ns = [ANY \<lparr>Name = Fqdn fqdn, Rrtype = TypeTXT, Class = ClassANY, Ttl = 0\<rparr>],
      Extra = [TSIG \<lparr>Name = tsigKey c, Rrtype = TypeTSIG, Class = ClassANY, Ttl = 0\<rparr>
                 \<lparr>Algorithm = tsigAlg c, TimeSigned = now_unix te, Fudge = 300,
                  OrigId = fresh_id te\<rparr>]\<rparr>"
  by (simp add: delete_msg_def RemoveRRset_def SetUpdate_def SetTsig_def new_Msg_def)

lemma client_add_exchanges:
  "exchanges (snd (RFC2136Client_AddTXTRecord c te fqdn val ttl)) =
     [([], server c @ '':53'', the (add_msg c te fqdn val ttl))]"
  by (simp add: RFC2136Client_AddTXTRecord_def add_msg_eq rfc_client_def Let_def
      split: sum.split)

lemma client_delete_exchanges:
  "exchanges (snd (RFC2136Client_DeleteTXTRecord c te fqdn)) =
     [([], server c @ '':53'', delete_msg c te fqdn)]"
  by (simp add: RFC2136Client_DeleteTXTRecord_def rfc_client_def Let_def
      split: sum.split)

lemma client_add_ok:
  "fst (RFC2136Client_AddTXTRecord c te fqdn val ttl) = None \<longleftrightarrow>
     (\<exists>reply. outcome te (rfc_client c) (the (add_msg c te fqdn val ttl)) (server c @ '':53'') =
        Inr reply \<and> Rcode reply = 0)"
  by (simp add: RFC2136Client_AddTXTRecord_def add_msg_eq Let_def split: sum.split)

lemma client_delete_ok:
  "fst (RFC2136Client_DeleteTXTRecord c te fqdn) = None \<longleftrightarrow>
     (\<exists>reply. outcome te (rfc_client c) (delete_msg c te fqdn) (server c @ '':53'') =
        Inr reply \<and> Rcode reply = 0)"
  by (simp add: RFC2136Client_DeleteTXTRecord_def Let_def split: sum.split)


lemma fan_out_char:
  "fan_out worker env i srvs =
     (length (filter (\<lambda>t. fst (worker (env (snd t)) (fst t)) = None)
        (zip srvs [i..<i + length srvs])),
      concat (map (\<lambda>t. case fst (worker (env (snd t)) (fst t)) of None \<Rightarrow> [] | Some e \<Rightarrow> [e])
        (zip srvs [i..<i + length srvs])),
      concat (map (\<lambda>t. snd (worker (env (snd t)) (fst t))) (zip srvs [i..<i + length srvs])))"
proof (induction srvs arbitrary: i)
  case Nil
  show ?case by simp
next
  case (Cons a srvs)
  have upt: "[i..<i + length (a # srvs)] = i # [Suc i..<Suc i + length srvs]"
    by (subst upt_rec) simp
  show ?case
    unfolding upt
    by (simp add: Cons.IH split: prod.split option.split)
qed

lemma complete_in_order_char:
  "complete_in_order worker env ts =
     (length (filter (\<lambda>t. fst (worker (env (snd t)) (fst t)) = None) ts),
      concat (map (\<lambda>t. case fst (worker (env (snd t)) (fst t)) of None \<Rightarrow> [] | Some e \<Rightarrow> [e]) ts),
      concat (map (\<lambda>t. snd (worker (env (snd t)) (fst t))) ts))"
  by (induction ts) (simp_all split: prod.split option.split)

lemma fan_out_is_list_order:
  "fan_out worker env 0 srvs = complete_in_order worker env (tasks srvs)"
  by (simp add: fan_out_char complete_in_order_char tasks_def)

lemma any_completion_order:
  assumes "mset ts' = mset (tasks srvs)"
  shows "fst (complete_in_order worker env ts') = fst (fan_out worker env 0 srvs) \<and>
         mset (fst (snd (complete_in_order worker env ts'))) =
           mset (fst (snd (fan_out worker env 0 srvs)))"
proof -
  let ?P = "\<lambda>t. fst (worker (env (snd t)) (fst t)) = None"
  let ?F = "\<lambda>t. case fst (worker (env (snd t)) (fst t)) of None \<Rightarrow> [] | Some e \<Rightarrow> [e]"
  have "size (filter_mset ?P (mset ts')) = size (filter_mset ?P (mset (tasks srvs)))"
    by (simp only: assms)
  then have n: "length (filter ?P ts') = length (filter ?P (tasks srvs))"
    by (simp only: mset_filter [symmetric] size_mset)
  have "(\<Sum>t \<in># mset ts'. mset (?F t)) = (\<Sum>t \<in># mset (tasks srvs). mset (?F t))"
    by (simp only: assms)
  then have e: "mset (concat (map ?F ts')) = mset (concat (map ?F (tasks srvs)))"
    by (simp add: mset_concat sum_mset_sum_list [symmetric] comp_def)
  show ?thesis
    unfolding fan_out_is_list_order complete_in_order_char using n e by simp
qed

lemma add_worker_fst:
  "fst (add_worker m fqdn val ttl (env j) srv) =
     (case fst (single_add m env fqdn val ttl (srv, j)) of
        None \<Rightarrow> None | Some e \<Rightarrow> Some (''server '' @ srv @ '': '' @ e))"
  by (simp add: add_worker_def single_add_def split: prod.split option.split)

lemma delete_worker_fst:
  "fst (delete_worker m fqdn (env j) srv) =
     (case fst (single_delete m env fqdn (srv, j)) of
        None \<Rightarrow> None | Some e \<Rightarrow> Some (''server '' @ srv @ '': '' @ e))"
  by (simp add: delete_worker_def single_delete_def split: prod.split option.split)

lemma add_worker_exchanges:
  "exchanges (snd (add_worker m fqdn val ttl (env j) srv)) =
     exchanges (snd (single_add m env fqdn val ttl (srv, j)))"
  by (simp add: add_worker_def single_add_def split: prod.split option.split)

lemma delete_worker_exchanges:
  "exchanges (snd (delete_worker m fqdn (env j) srv)) =
     exchanges (snd (single_delete m env fqdn (srv, j)))"
  by (simp add: delete_worker_def single_delete_def split: prod.split option.split)

lemma fan_out_add:
  "\<exists>evs. fan_out (add_worker m fqdn val ttl) env 0 (servers m) =
     (add_successes m env fqdn val ttl, add_failures m env fqdn val ttl, evs)"
proof -
  have 1: "(\<lambda>t. fst (add_worker m fqdn val ttl (env (snd t)) (fst t)) = None) =
           (\<lambda>t. fst (single_add m env fqdn val ttl t) = None)"
    by (rule ext) (simp add: add_worker_fst split: option.split)
  have 2: "(\<lambda>t. case fst (add_worker m fqdn val ttl (env (snd t)) (fst t)) of
                   None \<Rightarrow> [] | Some e \<Rightarrow> [e]) =
           (\<lambda>t. failure_of (fst t) (fst (single_add m env fqdn val ttl t)))"
    by (rule ext) (simp add: add_worker_fst failure_of_def split: option.split)
  show ?thesis
    by (simp add: fan_out_char 1 2 add_successes_def add_failures_def tasks_def)
qed

lemma fan_out_delete:
  "\<exists>evs. fan_out (delete_worker m fqdn) env 0 (servers m) =
     (delete_successes m env fqdn, delete_failures m env fqdn, evs)"
proof -
  have 1: "(\<lambda>t. fst (delete_worker m fqdn (env (snd t)) (fst t)) = None) =
           (\<lambda>t. fst (single_delete m env fqdn t) = None)"
    by (rule ext) (simp add: delete_worker_fst split: option.split)
  have 2: "(\<lambda>t. case fst (delete_worker m fqdn (env (snd t)) (fst t)) of
                   None \<Rightarrow> [] | Some e \<Rightarrow> [e]) =
           (\<lambda>t. failure_of (fst t) (fst (single_delete m env fqdn t)))"
    by (rule ext) (simp add: delete_worker_fst failure_of_def split: option.split)
  show ?thesis
    by (simp add: fan_out_char 1 2 delete_successes_def delete_failures_def tasks_def)
qed

lemma coordinator_add_result:
  "fst (MultiServerDNS_AddTXTRecord m env fqdn val ttl) =
     (if int (add_successes m env fqdn val ttl) < minSuccess m then
        Some (''only '' @ show_int (int (add_successes m env fqdn val ttl)) @ ''/'' @
              show_int (int (length (servers m))) @
              '' servers updated successfully (minimum '' @
              show_int (minSuccess m) @ '' required): '' @
              show_errors (add_failures m env fqdn val ttl))
      else None)"
proof -
  obtain evs where "fan_out (add_worker m fqdn val ttl) env 0 (servers m) =
     (add_successes m env fqdn val ttl, add_failures m env fqdn val ttl, evs)"
    using fan_out_add by blast
  then show ?thesis
    by (simp add: MultiServerDNS_AddTXTRecord_def)
qed

lemma coordinator_delete_result:
  "fst (MultiServerDNS_DeleteTXTRecord m env fqdn) =
     (if delete_successes m env fqdn = 0 then
        Some (''failed to delete on all servers: '' @ show_errors (delete_failures m env fqdn))
      else None)"
proof -
  obtain evs where "fan_out (delete_worker m fqdn) env 0 (servers m) =
     (delete_successes m env fqdn, delete_failures m env fqdn, evs)"
    using fan_out_delete by blast
  then show ?thesis
    by (simp add: MultiServerDNS_DeleteTXTRecord_def)
qed

lemma minSuccess_New:
  "minSuccess (NewMultiServerDNS srvs z tk ta ts) = int (length srvs div 2 + 1)"
  by (simp add: NewMultiServerDNS_def Let_def zdiv_int)

lemma sublist_under_append: "sublist xs zs \<Longrightarrow> sublist xs (ys @ zs)"
  unfolding sublist_def by (metis append.assoc)

lemma sublist_join_errors: "e \<in> set es \<Longrightarrow> sublist e (join_errors es)"
proof (induction es rule: join_errors.induct)
  case 1
  then show ?case by simp
next
  case (2 e')
  then show ?case by simp
next
  case (3 e' v va)
  show ?case
  proof (cases "e = e'")
    case True
    then show ?thesis by simp
  next
    case False
    with 3 have "sublist e (join_errors (v # va))" by simp
    then have "sublist e ((e' @ '' '') @ join_errors (v # va))"
      by (rule sublist_under_append)
    then show ?thesis by simp
  qed
qed

lemma sublist_show_errors: "e \<in> set es \<Longrightarrow> sublist e (show_errors es)"
proof -
  assume "e \<in> set es"
  then have "sublist e (join_errors es)" by (rule sublist_join_errors)
  then obtain ps ss where "join_errors es = ps @ e @ ss" by (auto simp: sublist_def)
  then have "show_errors es = (''['' @ ps) @ e @ (ss @ '']'')" by (simp add: show_errors_def)
  then show ?thesis unfolding sublist_def by blast
qed

lemma add_failure_listed:
  "t \<in> set (tasks (servers m)) \<Longrightarrow> fst (single_add m env fqdn val ttl t) = Some e \<Longrightarrow>
   (''server '' @ fst t @ '': '' @ e) \<in> set (add_failures m env fqdn val ttl)"
  by (force simp: add_failures_def failure_of_def)

lemma delete_failure_listed:
  "t \<in> set (tasks (servers m)) \<Longrightarrow> fst (single_delete m env fqdn t) = Some e \<Longrightarrow>
   (''server '' @ fst t @ '': '' @ e) \<in> set (delete_failures m env fqdn)"
  by (force simp: delete_failures_def failure_of_def)

lemma exchanges_concat: "exchanges (concat xss) = concat (map exchanges xss)"
  by (induction xss) simp_all

lemma map_fst_tasks: "map fst (tasks srvs) = srvs"
  by (simp add: tasks_def)

lemma fan_out_exchange_addresses:
  assumes "\<And>te srv. map (fst \<circ> snd) (exchanges (snd (worker te srv))) = [srv @ '':53'']"
  shows "map (fst \<circ> snd) (exchanges (snd (snd (fan_out worker env 0 srvs)))) =
         map (\<lambda>srv. srv @ '':53'') srvs"
proof -
  have "map (fst \<circ> snd) (exchanges (snd (snd (fan_out worker env 0 srvs)))) =
        concat (map (\<lambda>t. map (fst \<circ> snd) (exchanges (snd (worker (env (snd t)) (fst t)))))
          (tasks srvs))"
    by (simp add: fan_out_char exchanges_concat map_concat comp_def tasks_def)
  also have "\<dots> = concat (map (\<lambda>t. [fst t @ '':53'']) (tasks srvs))"
    by (simp add: assms)
  also have "\<dots> = map (\<lambda>srv. srv @ '':53'') (map fst (tasks srvs))"
    by (induction "tasks srvs") (simp_all add: comp_def)
  finally show ?thesis by (simp add: map_fst_tasks)
qed

lemma coordinator_add_exchanges:
  "map (fst \<circ> snd) (exchanges (snd (MultiServerDNS_AddTXTRecord m env fqdn val ttl))) =
     map (\<lambda>srv. srv @ '':53'') (servers m)"
proof -
  have w: "\<And>te srv. map (fst \<circ> snd) (exchanges (snd (add_worker m fqdn val ttl te srv))) =
        [srv @ '':53'']"
    using add_worker_exchanges [of m fqdn val ttl "\<lambda>_. te" 0 for te]
    by (simp add: single_add_def client_add_exchanges NewRFC2136Client_def)
  obtain sc errs evs where f: "fan_out (add_worker m fqdn val ttl) env 0 (servers m) = (sc, errs, evs)"
    by (cases "fan_out (add_worker m fqdn val ttl) env 0 (servers m)") auto
  have "exchanges (snd (MultiServerDNS_AddTXTRecord m env fqdn val ttl)) = exchanges evs"
    by (simp add: MultiServerDNS_AddTXTRecord_def Let_def f)
  then show ?thesis
    using fan_out_exchange_addresses [of "add_worker m fqdn val ttl" env "servers m", OF w]
    by (simp add: f)
qed

lemma coordinator_delete_exchanges:
  "map (fst \<circ> snd) (exchanges (snd (MultiServerDNS_DeleteTXTRecord m env fqdn))) =
     map (\<lambda>srv. srv @ '':53'') (servers m)"
proof -
  have w: "\<And>te srv. map (fst \<circ> snd) (exchanges (snd (delete_worker m fqdn te srv))) =
        [srv @ '':53'']"
    using delete_worker_exchanges [of m fqdn "\<lambda>_. te" 0 for te]
    by (simp add: single_delete_def client_delete_exchanges NewRFC2136Client_def)
  obtain sc errs evs where f: "fan_out (delete_worker m fqdn) env 0 (servers m) = (sc, errs, evs)"
    by (cases "fan_out (delete_worker m fqdn) env 0 (servers m)") auto
  have "exchanges (snd (MultiServerDNS_DeleteTXTRecord m env fqdn)) = exchanges evs"
    by (simp add: MultiServerDNS_DeleteTXTRecord_def Let_def f)
  then show ?thesis
    using fan_out_exchange_addresses [of "delete_worker m fqdn" env "servers m", OF w]
    by (simp add: f)
qed

lemma fan_out_exchanges:
  "exchanges (snd (snd (fan_out worker env 0 srvs))) =
     concat (map (\<lambda>t. exchanges (snd (worker (env (snd t)) (fst t)))) (tasks srvs))"
  by (simp add: fan_out_char exchanges_concat comp_def tasks_def)

lemma coordinator_add_exchanges_full:
  "exchanges (snd (MultiServerDNS_AddTXTRecord m env fqdn val ttl)) =
     concat (map (\<lambda>t. exchanges (snd (single_add m env fqdn val ttl t))) (tasks (servers m)))"
proof -
  obtain sc errs evs where f: "fan_out (add_worker m fqdn val ttl) env 0 (servers m) = (sc, errs, evs)"
    by (cases "fan_out (add_worker m fqdn val ttl) env 0 (servers m)") auto
  have "exchanges (snd (MultiServerDNS_AddTXTRecord m env fqdn val ttl)) = exchanges evs"
    by (simp add: MultiServerDNS_AddTXTRecord_def Let_def f)
  also have "\<dots> = exchanges (snd (snd (fan_out (add_worker m fqdn val ttl) env 0 (servers m))))"
    by (simp add: f)
  finally show ?thesis
    by (simp add: fan_out_exchanges add_worker_exchanges)
qed

lemma coordinator_delete_exchanges_full:
  "exchanges (snd (MultiServerDNS_DeleteTXTRecord m env fqdn)) =
     concat (map (\<lambda>t. exchanges (snd (single_delete m env fqdn t))) (tasks (servers m)))"
proof -
  obtain sc errs evs where f: "fan_out (delete_worker m fqdn) env 0 (servers m) = (sc, errs, evs)"
    by (cases "fan_out (delete_worker m fqdn) env 0 (servers m)") auto
  have "exchanges (snd (MultiServerDNS_DeleteTXTRecord m env fqdn)) = exchanges evs"
    by (simp add: MultiServerDNS_DeleteTXTRecord_def Let_def f)
  also have "\<dots> = exchanges (snd (snd (fan_out (delete_worker m fqdn) env 0 (servers m))))"
    by (simp add: f)
  finally show ?thesis
    by (simp add: fan_out_exchanges delete_worker_exchanges)
qed

lemma getTSIGSecret_events:
  "exchanges (snd (getTSIGSecret s namespace secretName key)) = []"
  "log_lines (snd (getTSIGSecret s namespace secretName key)) = []"
  by (simp_all add: getTSIGSecret_def split: option.split sum.split)

lemma Present_parse_error:
  "parseConfig (Config ch) = Inl err \<Longrightarrow>
   Present s env ch = (Some (''failed to parse config: '' @ err),
     [LogEv InfoLevel ''Presenting DNS01 challenge''
        [zap_String ''fqdn'' (ResolvedFQDN ch), zap_String ''key'' (Key ch),
         zap_String ''namespace'' (ResourceNamespace ch)]])"
  by (simp add: Present_def)

lemma CleanUp_parse_error:
  "parseConfig (Config ch) = Inl err \<Longrightarrow>
   CleanUp s env ch = (Some (''failed to parse config: '' @ err),
     [LogEv InfoLevel ''Cleaning up DNS01 challenge''
        [zap_String ''fqdn'' (ResolvedFQDN ch), zap_String ''key'' (Key ch),
         zap_String ''namespace'' (ResourceNamespace ch)]])"
  by (simp add: CleanUp_def)

lemma Present_secret_error:
  "parseConfig (Config ch) = Inr config \<Longrightarrow>
   fst (getTSIGSecret s (ResourceNamespace ch) (TSIGSecretName config) (TSIGSecretKey config)) =
     Inl err \<Longrightarrow>
   fst (Present s env ch) = Some (''failed to get TSIG secret: '' @ err) \<and>
   exchanges (snd (Present s env ch)) = []"
  using getTSIGSecret_events(1) [of s "ResourceNamespace ch" "TSIGSecretName config" "TSIGSecretKey config"]
  by (cases "getTSIGSecret s (ResourceNamespace ch) (TSIGSecretName config) (TSIGSecretKey config)")
    (simp add: Present_def)

lemma CleanUp_secret_error:
  "parseConfig (Config ch) = Inr config \<Longrightarrow>
   fst (getTSIGSecret s (ResourceNamespace ch) (TSIGSecretName config) (TSIGSecretKey config)) =
     Inl err \<Longrightarrow>
   fst (CleanUp s env ch) = Some (''failed to get TSIG secret: '' @ err) \<and>
   exchanges (snd (CleanUp s env ch)) = []"
  using getTSIGSecret_events(1) [of s "ResourceNamespace ch" "TSIGSecretName config" "TSIGSecretKey config"]
  by (cases "getTSIGSecret s (ResourceNamespace ch) (TSIGSecretName config) (TSIGSecretKey config)")
    (simp add: CleanUp_def)

lemma Present_dispatch:
  "parseConfig (Config ch) = Inr config \<Longrightarrow>
   fst (getTSIGSecret s (ResourceNamespace ch) (TSIGSecretName config) (TSIGSecretKey config)) =
     Inr sec \<Longrightarrow>
   exchanges (snd (Present s env ch)) =
     exchanges (snd (MultiServerDNS_AddTXTRecord
       (NewMultiServerDNS (Servers config) (Zone config) (TSIGKeyName config)
          (TSIGAlgorithm config) sec) env (ResolvedFQDN ch) (Key ch) (TTL config)))"
  using getTSIGSecret_events(1) [of s "ResourceNamespace ch" "TSIGSecretName config" "TSIGSecretKey config"]
  by (cases "getTSIGSecret s (ResourceNamespace ch) (TSIGSecretName config) (TSIGSecretKey config)")
    (simp add: Present_def Let_def split: prod.split option.split)

lemma CleanUp_dispatch:
  "parseConfig (Config ch) = Inr config \<Longrightarrow>
   fst (getTSIGSecret s (ResourceNamespace ch) (TSIGSecretName config) (TSIGSecretKey config)) =
     Inr sec \<Longrightarrow>
   exchanges (snd (CleanUp s env ch)) =
     exchanges (snd (MultiServerDNS_DeleteTXTRecord
       (NewMultiServerDNS (Servers config) (Zone config) (TSIGKeyName config)
          (TSIGAlgorithm config) sec) env (ResolvedFQDN ch)))"
  using getTSIGSecret_events(1) [of s "ResourceNamespace ch" "TSIGSecretName config" "TSIGSecretKey config"]
  by (cases "getTSIGSecret s (ResourceNamespace ch) (TSIGSecretName config) (TSIGSecretKey config)")
    (simp add: CleanUp_def Let_def split: prod.split option.split)

lemma Present_result:
  "parseConfig (Config ch) = Inr config \<Longrightarrow>
   fst (getTSIGSecret s (ResourceNamespace ch) (TSIGSecretName config) (TSIGSecretKey config)) =
     Inr sec \<Longrightarrow>
   fst (Present s env ch) =
     map_option (\<lambda>err. ''failed to add TXT record: '' @ err)
       (fst (MultiServerDNS_AddTXTRecord
         (NewMultiServerDNS (Servers config) (Zone config) (TSIGKeyName config)
            (TSIGAlgorithm config) sec) env (ResolvedFQDN ch) (Key ch) (TTL config)))"
  by (cases "getTSIGSecret s (ResourceNamespace ch) (TSIGSecretName config) (TSIGSecretKey config)")
    (simp add: Present_def Let_def split: prod.split option.split)

lemma CleanUp_result:
  "parseConfig (Config ch) = Inr config \<Longrightarrow>
   fst (getTSIGSecret s (ResourceNamespace ch) (TSIGSecretName config) (TSIGSecretKey config)) =
     Inr sec \<Longrightarrow>
   fst (CleanUp s env ch) =
     map_option (\<lambda>err. ''failed to delete TXT record: '' @ err)
       (fst (MultiServerDNS_DeleteTXTRecord
         (NewMultiServerDNS (Servers config) (Zone config) (TSIGKeyName config)
            (TSIGAlgorithm config) sec) env (ResolvedFQDN ch)))"
  by (cases "getTSIGSecret s (ResourceNamespace ch) (TSIGSecretName config) (TSIGSecretKey config)")
    (simp add: CleanUp_def Let_def split: prod.split option.split)

lemma concat_map_single: "concat (map (\<lambda>t. [f t]) ts) = map f ts"
  by (induction ts) simp_all

lemma coordinator_add_sent:
  "map (\<lambda>x. (fst (snd x), zone_of (snd (snd x)), update_names (snd (snd x)),
              update_ttls (snd (snd x))))
     (exchanges (snd (MultiServerDNS_AddTXTRecord m env fqdn val ttl))) =
   map (\<lambda>srv. (srv @ '':53'', [Fqdn (m_zone m)], [Fqdn fqdn], [ucast ttl])) (servers m)"
proof -
  have "map (\<lambda>x. (fst (snd x), zone_of (snd (snd x)), update_names (snd (snd x)),
              update_ttls (snd (snd x))))
     (exchanges (snd (MultiServerDNS_AddTXTRecord m env fqdn val ttl))) =
    map ((\<lambda>srv. (srv @ '':53'', [Fqdn (m_zone m)], [Fqdn fqdn], [ucast ttl])) \<circ> fst)
      (tasks (servers m))"
    by (simp add: coordinator_add_exchanges_full single_add_def client_add_exchanges
        add_msg_eq NewRFC2136Client_def concat_map_single zone_of_def update_names_def
        update_ttls_def)
  then show ?thesis
    by (simp add: map_fst_tasks flip: map_map)
qed

lemma coordinator_delete_sent:
  "map (\<lambda>x. (fst (snd x), zone_of (snd (snd x)), update_names (snd (snd x)),
              update_ttls (snd (snd x))))
     (exchanges (snd (MultiServerDNS_DeleteTXTRecord m env fqdn))) =
   map (\<lambda>srv. (srv @ '':53'', [Fqdn (m_zone m)], [Fqdn fqdn], [0])) (servers m)"
proof -
  have "map (\<lambda>x. (fst (snd x), zone_of (snd (snd x)), update_names (snd (snd x)),
              update_ttls (snd (snd x))))
     (exchanges (snd (MultiServerDNS_DeleteTXTRecord m env fqdn))) =
    map ((\<lambda>srv. (srv @ '':53'', [Fqdn (m_zone m)], [Fqdn fqdn], [0])) \<circ> fst)
      (tasks (servers m))"
    by (simp add: coordinator_delete_exchanges_full single_delete_def client_delete_exchanges
        delete_msg_eq NewRFC2136Client_def concat_map_single zone_of_def update_names_def
        update_ttls_def)
  then show ?thesis
    by (simp add: map_fst_tasks flip: map_map)
qed

lemma New_fields:
  "servers (NewMultiServerDNS srvs z tk ta ts) = srvs"
  "m_zone (NewMultiServerDNS srvs z tk ta ts) = z"
  by (simp_all add: NewMultiServerDNS_def Let_def)

lemma ucast_ttl: "uint (ucast (ttl :: 64 word) :: 32 word) = sint ttl mod 2 ^ 32"
proof -
  have "uint (ucast ttl :: 32 word) = take_bit 32 (uint ttl)"
    by (simp add: unsigned_ucast_eq)
  also have "\<dots> = take_bit 32 (signed_take_bit 63 (uint ttl))"
    by (simp add: take_bit_signed_take_bit)
  also have "\<dots> = take_bit 32 (sint ttl)"
    by (simp add: sint_uint)
  finally show ?thesis
    by (simp only: take_bit_eq_mod)
qed

lemma log_lines_concat: "log_lines (concat xss) = concat (map log_lines xss)"
  by (induction xss) simp_all

lemma blind_outcome:
  assumes "library_blind_to f env"
  shows "outcome (env i) (rfc_client (NewRFC2136Client srv z tk ta (f sec))) msg address =
         outcome (env i) (rfc_client (NewRFC2136Client srv z tk ta sec)) msg address"
proof -
  have "rfc_client (NewRFC2136Client srv z tk ta (f sec)) =
        (rfc_client (NewRFC2136Client srv z tk ta sec))
          \<lparr>TsigSecret := map (apsnd f) (TsigSecret (rfc_client (NewRFC2136Client srv z tk ta sec)))\<rparr>"
    by (simp add: rfc_client_def NewRFC2136Client_def)
  with assms show ?thesis
    unfolding library_blind_to_def by metis
qed

lemma client_add_secret_indep:
  assumes "library_blind_to f env"
  shows "fst (RFC2136Client_AddTXTRecord (NewRFC2136Client srv z tk ta (f sec)) (env i) fqdn val ttl) =
         fst (RFC2136Client_AddTXTRecord (NewRFC2136Client srv z tk ta sec) (env i) fqdn val ttl)"
    and "log_lines (snd (RFC2136Client_AddTXTRecord (NewRFC2136Client srv z tk ta (f sec)) (env i)
           fqdn val ttl)) =
         log_lines (snd (RFC2136Client_AddTXTRecord (NewRFC2136Client srv z tk ta sec) (env i)
           fqdn val ttl))"
proof -
  have m: "add_msg (NewRFC2136Client srv z tk ta (f sec)) (env i) fqdn val ttl =
           add_msg (NewRFC2136Client srv z tk ta sec) (env i) fqdn val ttl"
    by (simp add: add_msg_eq NewRFC2136Client_def)
  have s: "server (NewRFC2136Client srv z tk ta (f sec)) = server (NewRFC2136Client srv z tk ta sec)"
    "zone (NewRFC2136Client srv z tk ta (f sec)) = zone (NewRFC2136Client srv z tk ta sec)"
    by (simp_all add: NewRFC2136Client_def)
  note o = blind_outcome [OF assms, of i srv z tk ta sec]
  show "fst (RFC2136Client_AddTXTRecord (NewRFC2136Client srv z tk ta (f sec)) (env i) fqdn val ttl) =
         fst (RFC2136Client_AddTXTRecord (NewRFC2136Client srv z tk ta sec) (env i) fqdn val ttl)"
    unfolding RFC2136Client_AddTXTRecord_def m s o
    by (simp add: Let_def split: option.split sum.split)
  show "log_lines (snd (RFC2136Client_AddTXTRecord (NewRFC2136Client srv z tk ta (f sec)) (env i)
           fqdn val ttl)) =
         log_lines (snd (RFC2136Client_AddTXTRecord (NewRFC2136Client srv z tk ta sec) (env i)
           fqdn val ttl))"
    unfolding RFC2136Client_AddTXTRecord_def m s o
    by (simp add: Let_def split: option.split sum.split)
qed

lemma client_delete_secret_indep:
  assumes "library_blind_to f env"
  shows "fst (RFC2136Client_DeleteTXTRecord (NewRFC2136Client srv z tk ta (f sec)) (env i) fqdn) =
         fst (RFC2136Client_DeleteTXTRecord (NewRFC2136Client srv z tk ta sec) (env i) fqdn)"
    and "log_lines (snd (RFC2136Client_DeleteTXTRecord (NewRFC2136Client srv z tk ta (f sec)) (env i)
           fqdn)) =
         log_lines (snd (RFC2136Client_DeleteTXTRecord (NewRFC2136Client srv z tk ta sec) (env i)
           fqdn))"
proof -
  have m: "delete_msg (NewRFC2136Client srv z tk ta (f sec)) (env i) fqdn =
           delete_msg (NewRFC2136Client srv z tk ta sec) (env i) fqdn"
    by (simp add: delete_msg_eq NewRFC2136Client_def)
  have s: "server (NewRFC2136Client srv z tk ta (f sec)) = server (NewRFC2136Client srv z tk ta sec)"
    "zone (NewRFC2136Client srv z tk ta (f sec)) = zone (NewRFC2136Client srv z tk ta sec)"
    by (simp_all add: NewRFC2136Client_def)
  note o = blind_outcome [OF assms, of i srv z tk ta sec]
  show "fst (RFC2136Client_DeleteTXTRecord (NewRFC2136Client srv z tk ta (f sec)) (env i) fqdn) =
         fst (RFC2136Client_DeleteTXTRecord (NewRFC2136Client srv z tk ta sec) (env i) fqdn)"
    unfolding RFC2136Client_DeleteTXTRecord_def m s o
    by (simp add: Let_def split: sum.split)
  show "log_lines (snd (RFC2136Client_DeleteTXTRecord (NewRFC2136Client srv z tk ta (f sec)) (env i)
           fqdn)) =
         log_lines (snd (RFC2136Client_DeleteTXTRecord (NewRFC2136Client srv z tk ta sec) (env i)
           fqdn))"
    unfolding RFC2136Client_DeleteTXTRecord_def m s o
    by (simp add: Let_def split: sum.split)
qed

lemma add_worker_secret_indep:
  assumes "library_blind_to f env"
  shows "fst (add_worker (NewMultiServerDNS srvs z tk ta (f sec)) fqdn val ttl (env i) srv) =
         fst (add_worker (NewMultiServerDNS srvs z tk ta sec) fqdn val ttl (env i) srv)"
    and "log_lines (snd (add_worker (NewMultiServerDNS srvs z tk ta (f sec)) fqdn val ttl (env i) srv)) =
         log_lines (snd (add_worker (NewMultiServerDNS srvs z tk ta sec) fqdn val ttl (env i) srv))"
  using client_add_secret_indep [OF assms, of srv z tk ta sec i fqdn val ttl]
  by (auto simp: add_worker_def NewMultiServerDNS_def Let_def split: prod.split option.split)

lemma delete_worker_secret_indep:
  assumes "library_blind_to f env"
  shows "fst (delete_worker (NewMultiServerDNS srvs z tk ta (f sec)) fqdn (env i) srv) =
         fst (delete_worker (NewMultiServerDNS srvs z tk ta sec) fqdn (env i) srv)"
    and "log_lines (snd (delete_worker (NewMultiServerDNS srvs z tk ta (f sec)) fqdn (env i) srv)) =
         log_lines (snd (delete_worker (NewMultiServerDNS srvs z tk ta sec) fqdn (env i) srv))"
  using client_delete_secret_indep [OF assms, of srv z tk ta sec i fqdn]
  by (auto simp: delete_worker_def NewMultiServerDNS_def Let_def split: prod.split option.split)

lemma fan_out_cong:
  assumes "\<And>j srv. fst (w' (env j) srv) = fst (w (env j) srv)"
    and "\<And>j srv. log_lines (snd (w' (env j) srv)) = log_lines (snd (w (env j) srv))"
  shows "fst (fan_out w' env i srvs) = fst (fan_out w env i srvs) \<and>
         fst (snd (fan_out w' env i srvs)) = fst (snd (fan_out w env i srvs)) \<and>
         log_lines (snd (snd (fan_out w' env i srvs))) =
           log_lines (snd (snd (fan_out w env i srvs)))"
  by (simp add: fan_out_char log_lines_concat comp_def assms)

lemma coordinator_add_secret_indep:
  assumes "library_blind_to f env"
  shows "fst (MultiServerDNS_AddTXTRecord (NewMultiServerDNS srvs z tk ta (f sec)) env fqdn val ttl) =
   fst (MultiServerDNS_AddTXTRecord (NewMultiServerDNS srvs z tk ta sec) env fqdn val ttl) \<and>
   log_lines (snd (MultiServerDNS_AddTXTRecord (NewMultiServerDNS srvs z tk ta (f sec)) env fqdn val ttl)) =
   log_lines (snd (MultiServerDNS_AddTXTRecord (NewMultiServerDNS srvs z tk ta sec) env fqdn val ttl))"
proof -
  let ?m' = "NewMultiServerDNS srvs z tk ta (f sec)" and ?m = "NewMultiServerDNS srvs z tk ta sec"
  obtain n errs evs where f: "fan_out (add_worker ?m fqdn val ttl) env 0 srvs = (n, errs, evs)"
    by (cases "fan_out (add_worker ?m fqdn val ttl) env 0 srvs") auto
  obtain n' errs' evs' where f': "fan_out (add_worker ?m' fqdn val ttl) env 0 srvs = (n', errs', evs')"
    by (cases "fan_out (add_worker ?m' fqdn val ttl) env 0 srvs") auto
  from fan_out_cong [of "add_worker ?m' fqdn val ttl" env "add_worker ?m fqdn val ttl" 0 srvs,
      OF add_worker_secret_indep [OF assms]]
  have eq: "n' = n" "errs' = errs" "log_lines evs' = log_lines evs"
    by (simp_all add: f f')
  have fields: "servers ?m' = srvs" "servers ?m = srvs" "minSuccess ?m' = minSuccess ?m"
    by (simp_all add: NewMultiServerDNS_def Let_def)
  show ?thesis
    by (simp add: MultiServerDNS_AddTXTRecord_def Let_def fields f f' eq)
qed

lemma coordinator_delete_secret_indep:
  assumes "library_blind_to f env"
  shows "fst (MultiServerDNS_DeleteTXTRecord (NewMultiServerDNS srvs z tk ta (f sec)) env fqdn) =
   fst (MultiServerDNS_DeleteTXTRecord (NewMultiServerDNS srvs z tk ta sec) env fqdn) \<and>
   log_lines (snd (MultiServerDNS_DeleteTXTRecord (NewMultiServerDNS srvs z tk ta (f sec)) env fqdn)) =
   log_lines (snd (MultiServerDNS_DeleteTXTRecord (NewMultiServerDNS srvs z tk ta sec) env fqdn))"
proof -
  let ?m' = "NewMultiServerDNS srvs z tk ta (f sec)" and ?m = "NewMultiServerDNS srvs z tk ta sec"
  obtain n errs evs where f: "fan_out (delete_worker ?m fqdn) env 0 srvs = (n, errs, evs)"
    by (cases "fan_out (delete_worker ?m fqdn) env 0 srvs") auto
  obtain n' errs' evs' where f': "fan_out (delete_worker ?m' fqdn) env 0 srvs = (n', errs', evs')"
    by (cases "fan_out (delete_worker ?m' fqdn) env 0 srvs") auto
  from fan_out_cong [of "delete_worker ?m' fqdn" env "delete_worker ?m fqdn" 0 srvs,
      OF delete_worker_secret_indep [OF assms]]
  have eq: "n' = n" "errs' = errs" "log_lines evs' = log_lines evs"
    by (simp_all add: f f')
  have fields: "servers ?m' = srvs" "servers ?m = srvs"
    by (simp_all add: NewMultiServerDNS_def Let_def)
  show ?thesis
    by (simp add: MultiServerDNS_DeleteTXTRecord_def Let_def fields f f' eq)
qed

lemma getTSIGSecret_with_secrets:
  "getTSIGSecret \<lparr>client = Some (with_secrets f k)\<rparr> namespace secretName key =
     (case getTSIGSecret \<lparr>client = Some k\<rparr> namespace secretName key of
        (Inl err, evs) \<Rightarrow> (Inl err, evs)
      | (Inr v, evs) \<Rightarrow> (Inr (f v), evs))"
  by (simp add: getTSIGSecret_def with_secrets_def split: sum.split option.split)

lemma Present_secret_indep:
  assumes "library_blind_to f env"
  shows "fst (Present \<lparr>client = Some (with_secrets f k)\<rparr> env ch) =
     fst (Present \<lparr>client = Some k\<rparr> env ch) \<and>
   log_lines (snd (Present \<lparr>client = Some (with_secrets f k)\<rparr> env ch)) =
     log_lines (snd (Present \<lparr>client = Some k\<rparr> env ch))"
proof (cases "parseConfig (Config ch)")
  case (Inl err)
  then show ?thesis by (simp add: Present_parse_error)
next
  case (Inr config)
  obtain r evs where g: "getTSIGSecret \<lparr>client = Some k\<rparr> (ResourceNamespace ch)
      (TSIGSecretName config) (TSIGSecretKey config) = (r, evs)"
    by (cases "getTSIGSecret \<lparr>client = Some k\<rparr> (ResourceNamespace ch)
      (TSIGSecretName config) (TSIGSecretKey config)") auto
  show ?thesis
  proof (cases r)
    case (Inl err)
    with Inr g show ?thesis
      by (simp add: Present_def getTSIGSecret_with_secrets)
  next
    case sec: (Inr sec)
    let ?a' = "MultiServerDNS_AddTXTRecord (NewMultiServerDNS (Servers config) (Zone config)
        (TSIGKeyName config) (TSIGAlgorithm config) (f sec)) env (ResolvedFQDN ch) (Key ch)
        (TTL config)"
    let ?a = "MultiServerDNS_AddTXTRecord (NewMultiServerDNS (Servers config) (Zone config)
        (TSIGKeyName config) (TSIGAlgorithm config) sec) env (ResolvedFQDN ch) (Key ch)
        (TTL config)"
    have eq: "fst ?a' = fst ?a" "log_lines (snd ?a') = log_lines (snd ?a)"
      using coordinator_add_secret_indep [OF assms] by blast+
    obtain e' l' where a': "?a' = (e', l')" by (cases ?a') auto
    obtain e l where a: "?a = (e, l)" by (cases ?a) auto
    from eq a a' have "e' = e" "log_lines l' = log_lines l" by simp_all
    with Inr g sec a a' show ?thesis
      by (simp add: Present_def getTSIGSecret_with_secrets Let_def split: option.split)
  qed
qed

lemma CleanUp_secret_indep:
  assumes "library_blind_to f env"
  shows "fst (CleanUp \<lparr>client = Some (with_secrets f k)\<rparr> env ch) =
     fst (CleanUp \<lparr>client = Some k\<rparr> env ch) \<and>
   log_lines (snd (CleanUp \<lparr>client = Some (with_secrets f k)\<rparr> env ch)) =
     log_lines (snd (CleanUp \<lparr>client = Some k\<rparr> env ch))"
proof (cases "parseConfig (Config ch)")
  case (Inl err)
  then show ?thesis by (simp add: CleanUp_parse_error)
next
  case (Inr config)
  obtain r evs where g: "getTSIGSecret \<lparr>client = Some k\<rparr> (ResourceNamespace ch)
      (TSIGSecretName config) (TSIGSecretKey config) = (r, evs)"
    by (cases "getTSIGSecret \<lparr>client = Some k\<rparr> (ResourceNamespace ch)
      (TSIGSecretName config) (TSIGSecretKey config)") auto
  show ?thesis
  proof (cases r)
    case (Inl err)
    with Inr g show ?thesis
      by (simp add: CleanUp_def getTSIGSecret_with_secrets)
  next
    case sec: (Inr sec)
    let ?a' = "MultiServerDNS_DeleteTXTRecord (NewMultiServerDNS (Servers config) (Zone config)
        (TSIGKeyName config) (TSIGAlgorithm config) (f sec)) env (ResolvedFQDN ch)"
    let ?a = "MultiServerDNS_DeleteTXTRecord (NewMultiServerDNS (Servers config) (Zone config)
        (TSIGKeyName config) (TSIGAlgorithm config) sec) env (ResolvedFQDN ch)"
    have eq: "fst ?a' = fst ?a" "log_lines (snd ?a') = log_lines (snd ?a)"
      using coordinator_delete_secret_indep [OF assms] by blast+
    obtain e' l' where a': "?a' = (e', l')" by (cases ?a') auto
    obtain e l where a: "?a = (e, l)" by (cases ?a) auto
    from eq a a' have "e' = e" "log_lines l' = log_lines l" by simp_all
    with Inr g sec a a' show ?thesis
      by (simp add: CleanUp_def getTSIGSecret_with_secrets Let_def split: option.split)
  qed
qed

lemma coordinator_add_first_line:
  "hd (log_lines (snd (MultiServerDNS_AddTXTRecord m env fqdn val ttl))) =
     (InfoLevel, ''Adding TXT record to multiple servers'',
      [zap_String ''fqdn'' fqdn, zap_String ''value'' val, zap_Strings ''servers'' (servers m)])"
  by (simp add: MultiServerDNS_AddTXTRecord_def Let_def split: prod.split)

lemma client_add_first_line:
  "hd (log_lines (snd (RFC2136Client_AddTXTRecord c te fqdn val ttl))) =
     (InfoLevel, ''Adding TXT record'',
      [zap_String ''fqdn'' fqdn, zap_String ''value'' val, zap_String ''server'' (server c),
       zap_String ''zone'' (zone c)])"
  by (simp add: RFC2136Client_AddTXTRecord_def Let_def split: option.split sum.split)

lemma Present_first_line:
  "hd (log_lines (snd (Present s env ch))) =
     (InfoLevel, ''Presenting DNS01 challenge'',
      [zap_String ''fqdn'' (ResolvedFQDN ch), zap_String ''key'' (Key ch),
       zap_String ''namespace'' (ResourceNamespace ch)])"
  by (simp add: Present_def Let_def split: sum.split prod.split option.split)

lemma CleanUp_first_line:
  "hd (log_lines (snd (CleanUp s env ch))) =
     (InfoLevel, ''Cleaning up DNS01 challenge'',
      [zap_String ''fqdn'' (ResolvedFQDN ch), zap_String ''key'' (Key ch),
       zap_String ''namespace'' (ResourceNamespace ch)])"
  by (simp add: CleanUp_def Let_def split: sum.split prod.split option.split)

subsection \<open>The quorum rules of the coordinator\<close>

text \<open>
  C1. For every list of servers (of length \<open>N\<close>, in particular \<open>N \<ge> 1\<close>) and every
  assignment of per-server outcomes \<open>env\<close>, the threshold fixed by the constructor is
  \<open>N div 2 + 1\<close>, and the coordinator's \<^verbatim>\<open>AddTXTRecord\<close> returns nil exactly when the
  number of servers whose single-server add succeeds reaches that threshold; when
  fewer succeed it returns the aggregate error that reports the count, the total, the
  threshold and the failures.
\<close>

theorem add_quorum:
  "minSuccess (NewMultiServerDNS srvs z tk ta ts) = int (length srvs div 2 + 1) \<and>
   fst (MultiServerDNS_AddTXTRecord (NewMultiServerDNS srvs z tk ta ts) env fqdn val ttl) =
     (if length srvs div 2 + 1 \<le> add_successes (NewMultiServerDNS srvs z tk ta ts) env fqdn val ttl
      then None
      else Some (''only '' @
        show_int (int (add_successes (NewMultiServerDNS srvs z tk ta ts) env fqdn val ttl)) @
        ''/'' @ show_int (int (length srvs)) @ '' servers updated successfully (minimum '' @
        show_int (int (length srvs div 2 + 1)) @ '' required): '' @
        show_errors (add_failures (NewMultiServerDNS srvs z tk ta ts) env fqdn val ttl)))"
proof -
  have "servers (NewMultiServerDNS srvs z tk ta ts) = srvs"
    by (simp add: NewMultiServerDNS_def Let_def)
  then show ?thesis
    by (simp add: coordinator_add_result minSuccess_New del: of_nat_add of_nat_Suc)
qed

text \<open>
  C2. For every list of servers and every assignment of per-server outcomes, the
  coordinator's \<^verbatim>\<open>DeleteTXTRecord\<close> returns nil exactly when at least one server's
  single-server delete succeeds; when none succeeds it returns the error that lists the
  failures.
\<close>

theorem delete_at_least_one:
  "fst (MultiServerDNS_DeleteTXTRecord (NewMultiServerDNS srvs z tk ta ts) env fqdn) =
     (if 1 \<le> delete_successes (NewMultiServerDNS srvs z tk ta ts) env fqdn then None
      else Some (''failed to delete on all servers: '' @
        show_errors (delete_failures (NewMultiServerDNS srvs z tk ta ts) env fqdn)))"
  by (simp add: coordinator_delete_result)

subsection \<open>Every server is attempted, every failure is named\<close>

text \<open>
  C7. For every invocation of the coordinator's \<^verbatim>\<open>AddTXTRecord\<close> or \<^verbatim>\<open>DeleteTXTRecord\<close>,
  the single-server client calls made, each with its one call of the library's
  \<^verbatim>\<open>ExchangeContext\<close>, are one for each configured server (at port 53), whatever the
  outcomes: there is no early exit. Whenever the aggregate
  result is an error, that error's text contains, for every server whose single-server
  call failed, the server's name followed by its error cause.
\<close>

theorem every_server_attempted_and_named:
  "map (fst \<circ> snd) (exchanges (snd (MultiServerDNS_AddTXTRecord m env fqdn val ttl))) =
     map (\<lambda>srv. srv @ '':53'') (servers m) \<and>
   map (fst \<circ> snd) (exchanges (snd (MultiServerDNS_DeleteTXTRecord m env fqdn))) =
     map (\<lambda>srv. srv @ '':53'') (servers m) \<and>
   (\<forall>t \<in> set (tasks (servers m)). \<forall>cause err.
      fst (single_add m env fqdn val ttl t) = Some cause \<and>
      fst (MultiServerDNS_AddTXTRecord m env fqdn val ttl) = Some err \<longrightarrow>
      sublist (''server '' @ fst t @ '': '' @ cause) err) \<and>
   (\<forall>t \<in> set (tasks (servers m)). \<forall>cause err.
      fst (single_delete m env fqdn t) = Some cause \<and>
      fst (MultiServerDNS_DeleteTXTRecord m env fqdn) = Some err \<longrightarrow>
      sublist (''server '' @ fst t @ '': '' @ cause) err)"
proof (intro conjI ballI allI impI)
  show "map (fst \<circ> snd) (exchanges (snd (MultiServerDNS_AddTXTRecord m env fqdn val ttl))) =
     map (\<lambda>srv. srv @ '':53'') (servers m)"
    by (rule coordinator_add_exchanges)
next
  show "map (fst \<circ> snd) (exchanges (snd (MultiServerDNS_DeleteTXTRecord m env fqdn))) =
     map (\<lambda>srv. srv @ '':53'') (servers m)"
    by (rule coordinator_delete_exchanges)
next
  fix t cause err
  assume t: "t \<in> set (tasks (servers m))"
    and h: "fst (single_add m env fqdn val ttl t) = Some cause \<and>
      fst (MultiServerDNS_AddTXTRecord m env fqdn val ttl) = Some err"
  from t h have "sublist (''server '' @ fst t @ '': '' @ cause)
      (show_errors (add_failures m env fqdn val ttl))"
    by (intro sublist_show_errors add_failure_listed) simp_all
  moreover from h obtain pre where "err = pre @ show_errors (add_failures m env fqdn val ttl)"
    by (auto simp: coordinator_add_result split: if_splits)
  ultimately show "sublist (''server '' @ fst t @ '': '' @ cause) err"
    by (simp add: sublist_under_append)
next
  fix t cause err
  assume t: "t \<in> set (tasks (servers m))"
    and h: "fst (single_delete m env fqdn t) = Some cause \<and>
      fst (MultiServerDNS_DeleteTXTRecord m env fqdn) = Some err"
  from t h have "sublist (''server '' @ fst t @ '': '' @ cause)
      (show_errors (delete_failures m env fqdn))"
    by (intro sublist_show_errors delete_failure_listed) simp_all
  moreover from h obtain pre where "err = pre @ show_errors (delete_failures m env fqdn)"
    by (auto simp: coordinator_delete_result split: if_splits)
  ultimately show "sublist (''server '' @ fst t @ '': '' @ cause) err"
    by (simp add: sublist_under_append)
qed

theorem every_server_attempted_and_named_witness:
  "map (fst \<circ> snd) (exchanges (snd
      (MultiServerDNS_AddTXTRecord four_servers two_of_four acme_name ''tokenA'' 60))) =
     [''a:53'', ''b:53'', ''c:53'', ''d:53''] \<and>
   (''b'', 1) \<in> set (tasks (servers four_servers)) \<and>
   fst (single_add four_servers two_of_four acme_name ''tokenA'' 60 (''b'', 1)) =
     Some ''DNS update failed: REFUSED (rcode: 5)'' \<and>
   fst (MultiServerDNS_AddTXTRecord four_servers two_of_four acme_name ''tokenA'' 60) =
     Some (''only 2/4 servers updated successfully (minimum 3 required): '' @
           ''[server a: DNS update failed: REFUSED (rcode: 5) '' @
           ''server b: DNS update failed: REFUSED (rcode: 5)]'') \<and>
   sublist ''server b: DNS update failed: REFUSED (rcode: 5)''
     (''only 2/4 servers updated successfully (minimum 3 required): '' @
      ''[server a: DNS update failed: REFUSED (rcode: 5) '' @
      ''server b: DNS update failed: REFUSED (rcode: 5)]'') \<and>
   map (fst \<circ> snd) (exchanges (snd
      (MultiServerDNS_DeleteTXTRecord four_servers none_of_four acme_name))) =
     [''a:53'', ''b:53'', ''c:53'', ''d:53''] \<and>
   (''d'', 3) \<in> set (tasks (servers four_servers)) \<and>
   fst (single_delete four_servers none_of_four acme_name (''d'', 3)) =
     Some ''failed to send DNS delete to d: i/o timeout'' \<and>
   fst (MultiServerDNS_DeleteTXTRecord four_servers none_of_four acme_name) =
     Some (''failed to delete on all servers: '' @
           ''[server a: DNS delete failed: REFUSED (rcode: 5) '' @
           ''server b: DNS delete failed: REFUSED (rcode: 5) '' @
           ''server c: failed to send DNS delete to c: i/o timeout '' @
           ''server d: failed to send DNS delete to d: i/o timeout]'') \<and>
   sublist ''server d: failed to send DNS delete to d: i/o timeout''
     (''failed to delete on all servers: '' @
      ''[server a: DNS delete failed: REFUSED (rcode: 5) '' @
      ''server b: DNS delete failed: REFUSED (rcode: 5) '' @
      ''server c: failed to send DNS delete to c: i/o timeout '' @
      ''server d: failed to send DNS delete to d: i/o timeout]'')"
proof -
  note all = every_server_attempted_and_named
    [of four_servers two_of_four acme_name "''tokenA''" 60]
  note all' = every_server_attempted_and_named
    [of four_servers none_of_four acme_name "''tokenA''" 60]
  have t1: "(''b'', 1) \<in> set (tasks (servers four_servers))"
    by code_simp
  have c1: "fst (single_add four_servers two_of_four acme_name ''tokenA'' 60 (''b'', 1)) =
     Some ''DNS update failed: REFUSED (rcode: 5)''"
    by code_simp
  have e1: "fst (MultiServerDNS_AddTXTRecord four_servers two_of_four acme_name ''tokenA'' 60) =
     Some (''only 2/4 servers updated successfully (minimum 3 required): '' @
           ''[server a: DNS update failed: REFUSED (rcode: 5) '' @
           ''server b: DNS update failed: REFUSED (rcode: 5)]'')"
    by code_simp
  have x1: "map (\<lambda>srv. srv @ '':53'') (servers four_servers) =
     [''a:53'', ''b:53'', ''c:53'', ''d:53'']"
    by code_simp
  have t2: "(''d'', 3) \<in> set (tasks (servers four_servers))"
    by code_simp
  have c2: "fst (single_delete four_servers none_of_four acme_name (''d'', 3)) =
     Some ''failed to send DNS delete to d: i/o timeout''"
    by code_simp
  have e2: "fst (MultiServerDNS_DeleteTXTRecord four_servers none_of_four acme_name) =
     Some (''failed to delete on all servers: '' @
           ''[server a: DNS delete failed: REFUSED (rcode: 5) '' @
           ''server b: DNS delete failed: REFUSED (rcode: 5) '' @
           ''server c: failed to send DNS delete to c: i/o timeout '' @
           ''server d: failed to send DNS delete to d: i/o timeout]'')"
    by code_simp
  from all t1 c1 e1 have s1: "sublist (''server '' @ fst (''b'', 1::nat) @ '': '' @
       ''DNS update failed: REFUSED (rcode: 5)'')
     (''only 2/4 servers updated successfully (minimum 3 required): '' @
      ''[server a: DNS update failed: REFUSED (rcode: 5) '' @
      ''server b: DNS update failed: REFUSED (rcode: 5)]'')"
    by blast
  from all' t2 c2 e2 have s2: "sublist (''server '' @ fst (''d'', 3::nat) @ '': '' @
       ''failed to send DNS delete to d: i/o timeout'')
     (''failed to delete on all servers: '' @
      ''[server a: DNS delete failed: REFUSED (rcode: 5) '' @
      ''server b: DNS delete failed: REFUSED (rcode: 5) '' @
      ''server c: failed to send DNS delete to c: i/o timeout '' @
      ''server d: failed to send DNS delete to d: i/o timeout]'')"
    by blast
  from all have a1: "map (fst \<circ> snd) (exchanges (snd
      (MultiServerDNS_AddTXTRecord four_servers two_of_four acme_name ''tokenA'' 60))) =
     map (\<lambda>srv. srv @ '':53'') (servers four_servers)"
    by blast
  from all' have a2: "map (fst \<circ> snd) (exchanges (snd
      (MultiServerDNS_DeleteTXTRecord four_servers none_of_four acme_name))) =
     map (\<lambda>srv. srv @ '':53'') (servers four_servers)"
    by blast
  from s1 have s1': "sublist ''server b: DNS update failed: REFUSED (rcode: 5)''
     (''only 2/4 servers updated successfully (minimum 3 required): '' @
      ''[server a: DNS update failed: REFUSED (rcode: 5) '' @
      ''server b: DNS update failed: REFUSED (rcode: 5)]'')"
    by simp
  from s2 have s2': "sublist ''server d: failed to send DNS delete to d: i/o timeout''
     (''failed to delete on all servers: '' @
      ''[server a: DNS delete failed: REFUSED (rcode: 5) '' @
      ''server b: DNS delete failed: REFUSED (rcode: 5) '' @
      ''server c: failed to send DNS delete to c: i/o timeout '' @
      ''server d: failed to send DNS delete to d: i/o timeout]'')"
    by simp
  show ?thesis
    using t1 c1 e1 s1' t2 c2 e2 s2' a1 [unfolded x1] a2 [unfolded x1]
    by (intro conjI)
qed

subsection \<open>The update that deletes\<close>

text \<open>
  C8. For every fqdn, the single-server delete hands the library exactly one message,
  for server:53, and that message is an UPDATE: opcode UPDATE, a Zone section of one
  entry (the client's zone, fully qualified, type SOA, class IN), and an Update section
  of exactly one record: name the fully qualified fqdn (fqdn itself when it already
  ends with its dot), type TXT, class ANY, TTL 0 and no rdata; the TSIG record
  follows in the Additional section. This is the update that deletes the whole RRset
  (RFC 2136, 2.5.2): no record value enters the message, and the operation has no
  parameter for one.
\<close>

theorem delete_removes_whole_rrset:
  "exchanges (snd (RFC2136Client_DeleteTXTRecord c te fqdn)) =
     [([], server c @ '':53'',
       \<lparr>MsgId = fresh_id te, Response = False, Opcode = OpcodeUpdate, Truncated = False,
        Rcode = 0, Compress = False,
        Question = [\<lparr>Qname = Fqdn (zone c), Qtype = TypeSOA, Qclass = ClassINET\<rparr>],
        Ns = [ANY \<lparr>Name = Fqdn fqdn, Rrtype = TypeTXT, Class = ClassANY, Ttl = 0\<rparr>],
        Extra = [TSIG \<lparr>Name = tsigKey c, Rrtype = TypeTSIG, Class = ClassANY, Ttl = 0\<rparr>
                   \<lparr>Algorithm = tsigAlg c, TimeSigned = now_unix te, Fudge = 300,
                    OrigId = fresh_id te\<rparr>]\<rparr>)] \<and>
   map (map rdata \<circ> Ns \<circ> snd \<circ> snd)
     (exchanges (snd (RFC2136Client_DeleteTXTRecord c te fqdn))) = [[[]]] \<and>
   (IsFqdn fqdn \<longrightarrow>
      map (update_names \<circ> snd \<circ> snd)
        (exchanges (snd (RFC2136Client_DeleteTXTRecord c te fqdn))) = [[fqdn]])"
  by (simp add: client_delete_exchanges delete_msg_eq update_names_def Fqdn_def)

theorem delete_removes_whole_rrset_witness:
  "IsFqdn acme_name \<and>
   map (update_names \<circ> snd \<circ> snd)
     (exchanges (snd (RFC2136Client_DeleteTXTRecord example_client (reply_with 0 False) acme_name))) =
     [[acme_name]] \<and>
   map (\<lambda>x. (fst (snd x), Opcode (snd (snd x)), Question (snd (snd x)), Ns (snd (snd x))))
     (exchanges (snd (RFC2136Client_DeleteTXTRecord example_client (reply_with 0 False) acme_name))) =
     [(''10.0.0.1:53'', OpcodeUpdate,
       [\<lparr>Qname = ''example.com.'', Qtype = TypeSOA, Qclass = ClassINET\<rparr>],
       [ANY \<lparr>Name = ''_acme-challenge.app.example.com.'', Rrtype = TypeTXT, Class = ClassANY,
             Ttl = 0\<rparr>])] \<and>
   fst (RFC2136Client_DeleteTXTRecord example_client (reply_with 0 False) acme_name) = None"
proof -
  have q: "IsFqdn acme_name"
    by code_simp
  have z: "Fqdn (zone example_client) = ''example.com.''" "server example_client = ''10.0.0.1''"
    "Fqdn acme_name = ''_acme-challenge.app.example.com.''"
    by code_simp+
  have r: "fst (RFC2136Client_DeleteTXTRecord example_client (reply_with 0 False) acme_name) = None"
    by code_simp
  note t = delete_removes_whole_rrset [of example_client "reply_with 0 False" acme_name]
  from t q have n: "map (update_names \<circ> snd \<circ> snd)
     (exchanges (snd (RFC2136Client_DeleteTXTRecord example_client (reply_with 0 False) acme_name))) =
     [[acme_name]]"
    by blast
  from t have e: "exchanges (snd (RFC2136Client_DeleteTXTRecord example_client (reply_with 0 False)
       acme_name)) =
     [([], server example_client @ '':53'',
       \<lparr>MsgId = fresh_id (reply_with 0 False), Response = False, Opcode = OpcodeUpdate,
        Truncated = False, Rcode = 0, Compress = False,
        Question = [\<lparr>Qname = Fqdn (zone example_client), Qtype = TypeSOA, Qclass = ClassINET\<rparr>],
        Ns = [ANY \<lparr>Name = Fqdn acme_name, Rrtype = TypeTXT, Class = ClassANY, Ttl = 0\<rparr>],
        Extra = [TSIG \<lparr>Name = tsigKey example_client, Rrtype = TypeTSIG, Class = ClassANY,
                        Ttl = 0\<rparr>
                   \<lparr>Algorithm = tsigAlg example_client, TimeSigned = now_unix (reply_with 0 False),
                    Fudge = 300, OrigId = fresh_id (reply_with 0 False)\<rparr>]\<rparr>)]"
    by blast
  have p: "map (\<lambda>x. (fst (snd x), Opcode (snd (snd x)), Question (snd (snd x)), Ns (snd (snd x))))
     (exchanges (snd (RFC2136Client_DeleteTXTRecord example_client (reply_with 0 False) acme_name))) =
     [(''10.0.0.1:53'', OpcodeUpdate,
       [\<lparr>Qname = ''example.com.'', Qtype = TypeSOA, Qclass = ClassINET\<rparr>],
       [ANY \<lparr>Name = ''_acme-challenge.app.example.com.'', Rrtype = TypeTXT, Class = ClassANY,
             Ttl = 0\<rparr>])]"
    unfolding e z by simp
  show ?thesis
    using q n p r by (intro conjI)
qed

subsection \<open>Truncated replies\<close>

text \<open>
  C4, as stated, fails: with credentials that the library accepts, a reply with the TC
  bit set and RCODE 0 makes the call succeed after its single call of the library, on
  the default transport (UDP); nothing is sent over TCP.
\<close>

theorem truncated_reply_is_not_retried:
  "fst (RFC2136Client_AddTXTRecord example_client (reply_with 0 True) acme_name ''tokenA'' 60) = None \<and>
   map (\<lambda>x. (fst x, fst (snd x))) (exchanges (snd
     (RFC2136Client_AddTXTRecord example_client (reply_with 0 True) acme_name ''tokenA'' 60))) =
     [([], ''10.0.0.1:53'')] \<and>
   fst (RFC2136Client_DeleteTXTRecord example_client (reply_with 0 True) acme_name) = None \<and>
   map (\<lambda>x. (fst x, fst (snd x))) (exchanges (snd
     (RFC2136Client_DeleteTXTRecord example_client (reply_with 0 True) acme_name))) =
     [([], ''10.0.0.1:53'')]"
  by code_simp

text \<open>
  C4, amended. Every single-server call (add or delete) calls the library's
  \<^verbatim>\<open>ExchangeContext\<close> exactly once, on a client left at its default transport (the empty
  \<open>Net\<close>: UDP), for server:53; and its result is the same whether the reply that the
  library returns has the TC bit set or not. The client does not read the TC bit and
  does not retry over TCP.
\<close>

theorem one_exchange_whatever_the_tc_bit:
  "map (\<lambda>x. (fst x, fst (snd x)))
     (exchanges (snd (RFC2136Client_AddTXTRecord c te fqdn val ttl))) =
     [([], server c @ '':53'')] \<and>
   map (\<lambda>x. (fst x, fst (snd x)))
     (exchanges (snd (RFC2136Client_DeleteTXTRecord c te fqdn))) =
     [([], server c @ '':53'')] \<and>
   fst (RFC2136Client_AddTXTRecord c
         (te\<lparr>outcome := \<lambda>cl msg address.
            map_sum id (\<lambda>reply. reply\<lparr>Truncated := tc\<rparr>) (outcome te cl msg address)\<rparr>)
         fqdn val ttl) =
     fst (RFC2136Client_AddTXTRecord c te fqdn val ttl) \<and>
   fst (RFC2136Client_DeleteTXTRecord c
         (te\<lparr>outcome := \<lambda>cl msg address.
            map_sum id (\<lambda>reply. reply\<lparr>Truncated := tc\<rparr>) (outcome te cl msg address)\<rparr>)
         fqdn) =
     fst (RFC2136Client_DeleteTXTRecord c te fqdn)"
proof (intro conjI)
  show "map (\<lambda>x. (fst x, fst (snd x)))
     (exchanges (snd (RFC2136Client_AddTXTRecord c te fqdn val ttl))) =
     [([], server c @ '':53'')]"
    by (simp add: client_add_exchanges)
  show "map (\<lambda>x. (fst x, fst (snd x)))
     (exchanges (snd (RFC2136Client_DeleteTXTRecord c te fqdn))) =
     [([], server c @ '':53'')]"
    by (simp add: client_delete_exchanges)
  show "fst (RFC2136Client_AddTXTRecord c
         (te\<lparr>outcome := \<lambda>cl msg address.
            map_sum id (\<lambda>reply. reply\<lparr>Truncated := tc\<rparr>) (outcome te cl msg address)\<rparr>)
         fqdn val ttl) =
     fst (RFC2136Client_AddTXTRecord c te fqdn val ttl)"
    by (simp add: RFC2136Client_AddTXTRecord_def add_msg_eq Let_def split: sum.split)
  show "fst (RFC2136Client_DeleteTXTRecord c
         (te\<lparr>outcome := \<lambda>cl msg address.
            map_sum id (\<lambda>reply. reply\<lparr>Truncated := tc\<rparr>) (outcome te cl msg address)\<rparr>)
         fqdn) =
     fst (RFC2136Client_DeleteTXTRecord c te fqdn)"
    by (simp add: RFC2136Client_DeleteTXTRecord_def delete_msg_eq Let_def split: sum.split)
qed

subsection \<open>Configuration\<close>

text \<open>
  C5, as stated, fails in its "otherwise it succeeds": a document in which \<open>servers\<close> is
  non-empty and \<open>zone\<close>, \<open>tsigKeyName\<close> and \<open>tsigSecretName\<close> are all present is
  rejected when \<open>zone\<close> is the empty string, and when it does not decode (here, a string
  for \<open>ttl\<close>).
\<close>

theorem parseConfig_rejects_more_counterexample:
  "parseConfig (Document \<lparr>doc_servers = Some [''10.0.0.1''], doc_zone = Some '''',
      doc_tsigKeyName = Some ''acme-key'', doc_tsigAlgorithm = None,
      doc_tsigSecretName = Some ''tsig-secret'', doc_tsigSecretKey = None, doc_ttl = None\<rparr>) =
     Inl ''zone is required'' \<and>
   parseConfig (Undecodable
      ''json: cannot unmarshal string into Go struct field Config.ttl of type int'') =
     Inl (''failed to unmarshal config: '' @
      ''json: cannot unmarshal string into Go struct field Config.ttl of type int'')"
  by code_simp

text \<open>
  C5, amended. \<^verbatim>\<open>parseConfig\<close> returns a descriptive error when the document is empty or
  does not decode, when \<open>servers\<close> is absent or empty, or when \<open>zone\<close>, \<open>tsigKeyName\<close> or
  \<open>tsigSecretName\<close> is absent or the empty string; otherwise it succeeds with the
  document's values, \<open>tsigAlgorithm\<close> being \<^verbatim>\<open>"hmac-sha256"\<close>, \<open>tsigSecretKey\<close> being
  \<^verbatim>\<open>"secret"\<close> and \<open>ttl\<close> being 60 where the document does not specify them.
\<close>

theorem parseConfig_characterised:
  "parseConfig NoConfig = Inl ''config is empty'' \<and>
   parseConfig (Undecodable err) = Inl (''failed to unmarshal config: '' @ err) \<and>
   parseConfig (Document d) =
     (if doc_servers d = None \<or> doc_servers d = Some [] then Inl ''servers list is required''
      else if doc_zone d = None \<or> doc_zone d = Some [] then Inl ''zone is required''
      else if doc_tsigKeyName d = None \<or> doc_tsigKeyName d = Some []
        then Inl ''tsigKeyName is required''
      else if doc_tsigSecretName d = None \<or> doc_tsigSecretName d = Some []
        then Inl ''tsigSecretName is required''
      else Inr \<lparr>Servers = the (doc_servers d), Zone = the (doc_zone d),
        TSIGKeyName = the (doc_tsigKeyName d),
        TSIGAlgorithm = (case doc_tsigAlgorithm d of None \<Rightarrow> ''hmac-sha256'' | Some a \<Rightarrow> a),
        TSIGSecretName = the (doc_tsigSecretName d),
        TSIGSecretKey = (case doc_tsigSecretKey d of None \<Rightarrow> ''secret'' | Some k \<Rightarrow> k),
        TTL = (case doc_ttl d of None \<Rightarrow> 60 | Some t \<Rightarrow> t)\<rparr>)"
  by (auto simp: parseConfig_def Unmarshal_def store_def Let_def split: option.splits)

subsection \<open>Errors before any network call\<close>

text \<open>
  C6. Whenever parsing the configuration fails, \<^verbatim>\<open>Present\<close> and \<^verbatim>\<open>CleanUp\<close> return the
  configuration error, having looked up no secret and not called the DNS library's
  \<^verbatim>\<open>ExchangeContext\<close>, so that nothing is exchanged with a DNS server; whenever resolving
  the secret fails, they return that error, again without a call of \<^verbatim>\<open>ExchangeContext\<close>.
\<close>

theorem config_and_secret_errors_precede_io:
  "(parseConfig (Config ch) = Inl err \<longrightarrow>
      fst (Present s env ch) = Some (''failed to parse config: '' @ err) \<and>
      secret_lookups (snd (Present s env ch)) = [] \<and>
      exchanges (snd (Present s env ch)) = [] \<and>
      fst (CleanUp s env ch) = Some (''failed to parse config: '' @ err) \<and>
      secret_lookups (snd (CleanUp s env ch)) = [] \<and>
      exchanges (snd (CleanUp s env ch)) = []) \<and>
   (parseConfig (Config ch) = Inr config \<and>
    fst (getTSIGSecret s (ResourceNamespace ch) (TSIGSecretName config) (TSIGSecretKey config)) =
      Inl err \<longrightarrow>
      fst (Present s env ch) = Some (''failed to get TSIG secret: '' @ err) \<and>
      exchanges (snd (Present s env ch)) = [] \<and>
      fst (CleanUp s env ch) = Some (''failed to get TSIG secret: '' @ err) \<and>
      exchanges (snd (CleanUp s env ch)) = [])"
  using Present_secret_error [of ch config s err env] CleanUp_secret_error [of ch config s err env]
  by (auto simp: Present_parse_error CleanUp_parse_error)

theorem config_and_secret_errors_precede_io_witness:
  "parseConfig (Config (example_request
      \<lparr>Config := Document (example_document\<lparr>doc_servers := None\<rparr>)\<rparr>)) =
     Inl ''servers list is required'' \<and>
   fst (Present example_solver two_of_four (example_request
      \<lparr>Config := Document (example_document\<lparr>doc_servers := None\<rparr>)\<rparr>)) =
     Some ''failed to parse config: servers list is required'' \<and>
   secret_lookups (snd (Present example_solver two_of_four (example_request
      \<lparr>Config := Document (example_document\<lparr>doc_servers := None\<rparr>)\<rparr>))) = [] \<and>
   exchanges (snd (Present example_solver two_of_four (example_request
      \<lparr>Config := Document (example_document\<lparr>doc_servers := None\<rparr>)\<rparr>))) = [] \<and>
   exchanges (snd (CleanUp example_solver two_of_four (example_request
      \<lparr>Config := Document (example_document\<lparr>doc_servers := None\<rparr>)\<rparr>))) = [] \<and>
   parseConfig (Config (example_request\<lparr>ResourceNamespace := ''default''\<rparr>)) =
     Inr example_config \<and>
   getTSIGSecret example_solver ''default'' ''tsig-secret'' ''secret'' =
     (Inl ''failed to get secret default/tsig-secret: secret not found'',
      [SecretGetEv ''default'' ''tsig-secret'']) \<and>
   fst (Present example_solver two_of_four (example_request\<lparr>ResourceNamespace := ''default''\<rparr>)) =
     Some ''failed to get TSIG secret: failed to get secret default/tsig-secret: secret not found'' \<and>
   exchanges (snd (Present example_solver two_of_four
     (example_request\<lparr>ResourceNamespace := ''default''\<rparr>))) = [] \<and>
   exchanges (snd (CleanUp example_solver two_of_four
     (example_request\<lparr>ResourceNamespace := ''default''\<rparr>))) = []"
proof -
  have p1: "parseConfig (Config (example_request
      \<lparr>Config := Document (example_document\<lparr>doc_servers := None\<rparr>)\<rparr>)) =
     Inl ''servers list is required''"
    by code_simp
  have p2: "parseConfig (Config (example_request\<lparr>ResourceNamespace := ''default''\<rparr>)) =
     Inr example_config"
    by code_simp
  have g: "getTSIGSecret example_solver ''default'' ''tsig-secret'' ''secret'' =
     (Inl ''failed to get secret default/tsig-secret: secret not found'',
      [SecretGetEv ''default'' ''tsig-secret''])"
    by code_simp
  have g': "fst (getTSIGSecret example_solver
       (ResourceNamespace (example_request\<lparr>ResourceNamespace := ''default''\<rparr>))
       (TSIGSecretName example_config) (TSIGSecretKey example_config)) =
     Inl ''failed to get secret default/tsig-secret: secret not found''"
    using g by (simp add: example_config_def)
  show ?thesis
    using p1 p2 g g'
      config_and_secret_errors_precede_io
        [of "example_request\<lparr>Config := Document (example_document\<lparr>doc_servers := None\<rparr>)\<rparr>"
            "''servers list is required''" example_solver two_of_four example_config]
      config_and_secret_errors_precede_io
        [of "example_request\<lparr>ResourceNamespace := ''default''\<rparr>"
            "''failed to get secret default/tsig-secret: secret not found''"
            example_solver two_of_four example_config]
    by simp
qed

subsection \<open>The zone of a request\<close>

text \<open>
  C9, as stated, fails: with credentials that the library accepts, a request for a
  name outside the configured zone is sent to the server; the call succeeds when the
  server answers NOERROR, and fails with the server's own answer when it answers
  NOTZONE.
\<close>

theorem name_outside_zone_is_dispatched:
  "fst (Present example_solver all_noerror outside_request) = None \<and>
   map (\<lambda>x. (fst (snd x), zone_of (snd (snd x)), update_names (snd (snd x))))
     (exchanges (snd (Present example_solver all_noerror outside_request))) =
     [(''10.0.0.1:53'', [''example.com.''], [''_acme-challenge.evil.org.''])] \<and>
   \<not> suffix ''example.com.'' ''_acme-challenge.evil.org.'' \<and>
   fst (Present example_solver (\<lambda>i. reply_with 10 False) outside_request) =
     Some (''failed to add TXT record: '' @
           ''only 0/1 servers updated successfully (minimum 1 required): '' @
           ''[server 10.0.0.1: DNS update failed: NOTZONE (rcode: 10)]'')"
  by code_simp

text \<open>
  C9, amended. No layer compares the name with the zone. Whenever the configuration
  parses and the secret resolves, \<^verbatim>\<open>Present\<close> and \<^verbatim>\<open>CleanUp\<close> call the library's
  \<^verbatim>\<open>ExchangeContext\<close> once for every configured server, with an update whose Zone section
  names the fully qualified configured zone and whose record has the fully qualified name
  of the request, whether or not that name has the zone as a suffix; and the operation
  succeeds exactly when enough of these single-server calls succeed, a majority for
  \<^verbatim>\<open>Present\<close> and one for \<^verbatim>\<open>CleanUp\<close>. A request outside the zone is thus sent, and
  succeeds, whenever the library and the servers accept it.
\<close>

theorem dispatch_without_zone_check:
  "parseConfig (Config ch) = Inr config \<and>
   fst (getTSIGSecret s (ResourceNamespace ch) (TSIGSecretName config) (TSIGSecretKey config)) =
     Inr sec \<longrightarrow>
   map (\<lambda>x. (fst (snd x), zone_of (snd (snd x)), update_names (snd (snd x))))
     (exchanges (snd (Present s env ch))) =
     map (\<lambda>srv. (srv @ '':53'', [Fqdn (Zone config)], [Fqdn (ResolvedFQDN ch)])) (Servers config) \<and>
   map (\<lambda>x. (fst (snd x), zone_of (snd (snd x)), update_names (snd (snd x))))
     (exchanges (snd (CleanUp s env ch))) =
     map (\<lambda>srv. (srv @ '':53'', [Fqdn (Zone config)], [Fqdn (ResolvedFQDN ch)])) (Servers config) \<and>
   (fst (Present s env ch) = None \<longleftrightarrow>
      length (Servers config) div 2 + 1 \<le>
        add_successes (NewMultiServerDNS (Servers config) (Zone config) (TSIGKeyName config)
          (TSIGAlgorithm config) sec) env (ResolvedFQDN ch) (Key ch) (TTL config)) \<and>
   (fst (CleanUp s env ch) = None \<longleftrightarrow>
      1 \<le> delete_successes (NewMultiServerDNS (Servers config) (Zone config) (TSIGKeyName config)
          (TSIGAlgorithm config) sec) env (ResolvedFQDN ch))"
proof (intro impI, elim conjE)
  assume p: "parseConfig (Config ch) = Inr config"
    and g: "fst (getTSIGSecret s (ResourceNamespace ch) (TSIGSecretName config)
              (TSIGSecretKey config)) = Inr sec"
  let ?m = "NewMultiServerDNS (Servers config) (Zone config) (TSIGKeyName config)
              (TSIGAlgorithm config) sec"
  let ?f = "\<lambda>q :: string \<times> string list \<times> string list \<times> 32 word list.
              (fst q, fst (snd q), fst (snd (snd q)))"
  have a: "map (\<lambda>x. (fst (snd x), zone_of (snd (snd x)), update_names (snd (snd x))))
     (exchanges (snd (Present s env ch))) =
     map ?f (map (\<lambda>srv. (srv @ '':53'', [Fqdn (m_zone ?m)], [Fqdn (ResolvedFQDN ch)],
        [ucast (TTL config)])) (servers ?m))"
    unfolding Present_dispatch [OF p g]
      coordinator_add_sent [of ?m env "ResolvedFQDN ch" "Key ch" "TTL config", symmetric]
    by (simp add: comp_def)
  have d: "map (\<lambda>x. (fst (snd x), zone_of (snd (snd x)), update_names (snd (snd x))))
     (exchanges (snd (CleanUp s env ch))) =
     map ?f (map (\<lambda>srv. (srv @ '':53'', [Fqdn (m_zone ?m)], [Fqdn (ResolvedFQDN ch)],
        [0])) (servers ?m))"
    unfolding CleanUp_dispatch [OF p g]
      coordinator_delete_sent [of ?m env "ResolvedFQDN ch", symmetric]
    by (simp add: comp_def)
  have ra: "fst (Present s env ch) = None \<longleftrightarrow>
      length (Servers config) div 2 + 1 \<le>
        add_successes ?m env (ResolvedFQDN ch) (Key ch) (TTL config)"
    unfolding Present_result [OF p g]
    by (simp add: coordinator_add_result minSuccess_New del: of_nat_add of_nat_Suc)
  have rd: "fst (CleanUp s env ch) = None \<longleftrightarrow>
      1 \<le> delete_successes ?m env (ResolvedFQDN ch)"
    unfolding CleanUp_result [OF p g]
    by (simp add: coordinator_delete_result)
  have a': "map (\<lambda>x. (fst (snd x), zone_of (snd (snd x)), update_names (snd (snd x))))
     (exchanges (snd (Present s env ch))) =
     map (\<lambda>srv. (srv @ '':53'', [Fqdn (Zone config)], [Fqdn (ResolvedFQDN ch)])) (Servers config)"
    unfolding a by (simp add: New_fields comp_def)
  have d': "map (\<lambda>x. (fst (snd x), zone_of (snd (snd x)), update_names (snd (snd x))))
     (exchanges (snd (CleanUp s env ch))) =
     map (\<lambda>srv. (srv @ '':53'', [Fqdn (Zone config)], [Fqdn (ResolvedFQDN ch)])) (Servers config)"
    unfolding d by (simp add: New_fields comp_def)
  show "map (\<lambda>x. (fst (snd x), zone_of (snd (snd x)), update_names (snd (snd x))))
     (exchanges (snd (Present s env ch))) =
     map (\<lambda>srv. (srv @ '':53'', [Fqdn (Zone config)], [Fqdn (ResolvedFQDN ch)])) (Servers config) \<and>
   map (\<lambda>x. (fst (snd x), zone_of (snd (snd x)), update_names (snd (snd x))))
     (exchanges (snd (CleanUp s env ch))) =
     map (\<lambda>srv. (srv @ '':53'', [Fqdn (Zone config)], [Fqdn (ResolvedFQDN ch)])) (Servers config) \<and>
   (fst (Present s env ch) = None \<longleftrightarrow>
      length (Servers config) div 2 + 1 \<le>
        add_successes ?m env (ResolvedFQDN ch) (Key ch) (TTL config)) \<and>
   (fst (CleanUp s env ch) = None \<longleftrightarrow>
      1 \<le> delete_successes ?m env (ResolvedFQDN ch))"
    using a' d' ra rd by (intro conjI)
qed

theorem dispatch_without_zone_check_witness:
  "parseConfig (Config example_request) = Inr example_config \<and>
   fst (getTSIGSecret example_solver ''cert-manager'' ''tsig-secret'' ''secret'') =
     Inr ''c2VjcmV0'' \<and>
   map (\<lambda>x. (fst (snd x), zone_of (snd (snd x)), update_names (snd (snd x))))
     (exchanges (snd (Present example_solver all_noerror example_request))) =
     [(''10.0.0.1:53'', [''example.com.''], [''_acme-challenge.app.example.com.''])] \<and>
   map (\<lambda>x. (fst (snd x), zone_of (snd (snd x)), update_names (snd (snd x))))
     (exchanges (snd (CleanUp example_solver all_noerror example_request))) =
     [(''10.0.0.1:53'', [''example.com.''], [''_acme-challenge.app.example.com.''])] \<and>
   fst (Present example_solver all_noerror example_request) = None \<and>
   fst (CleanUp example_solver all_noerror example_request) = None"
proof -
  have p: "parseConfig (Config example_request) = Inr example_config"
    by code_simp
  have g: "fst (getTSIGSecret example_solver ''cert-manager'' ''tsig-secret'' ''secret'') =
     Inr ''c2VjcmV0''"
    by code_simp
  have g': "fst (getTSIGSecret example_solver (ResourceNamespace example_request)
       (TSIGSecretName example_config) (TSIGSecretKey example_config)) = Inr ''c2VjcmV0''"
    by code_simp
  have r: "map (\<lambda>srv. (srv @ '':53'', [Fqdn (Zone example_config)],
        [Fqdn (ResolvedFQDN example_request)])) (Servers example_config) =
     [(''10.0.0.1:53'', [''example.com.''], [''_acme-challenge.app.example.com.''])]"
    by code_simp
  have na: "length (Servers example_config) div 2 + 1 \<le>
      add_successes (NewMultiServerDNS (Servers example_config) (Zone example_config)
        (TSIGKeyName example_config) (TSIGAlgorithm example_config) ''c2VjcmV0'') all_noerror
        (ResolvedFQDN example_request) (Key example_request) (TTL example_config)"
    by code_simp
  have nd: "1 \<le> delete_successes (NewMultiServerDNS (Servers example_config) (Zone example_config)
        (TSIGKeyName example_config) (TSIGAlgorithm example_config) ''c2VjcmV0'') all_noerror
        (ResolvedFQDN example_request)"
    by code_simp
  note t = dispatch_without_zone_check
      [where ch = example_request and config = example_config and s = example_solver
         and sec = "''c2VjcmV0''" and env = all_noerror]
  from t p g' na nd have c: "fst (Present example_solver all_noerror example_request) = None"
    "fst (CleanUp example_solver all_noerror example_request) = None"
    by blast+
  from t p g' have e: "map (\<lambda>x. (fst (snd x), zone_of (snd (snd x)), update_names (snd (snd x))))
     (exchanges (snd (Present example_solver all_noerror example_request))) =
     map (\<lambda>srv. (srv @ '':53'', [Fqdn (Zone example_config)],
        [Fqdn (ResolvedFQDN example_request)])) (Servers example_config)"
    "map (\<lambda>x. (fst (snd x), zone_of (snd (snd x)), update_names (snd (snd x))))
     (exchanges (snd (CleanUp example_solver all_noerror example_request))) =
     map (\<lambda>srv. (srv @ '':53'', [Fqdn (Zone example_config)],
        [Fqdn (ResolvedFQDN example_request)])) (Servers example_config)"
    by blast+
  show ?thesis
    using p g e [unfolded r] c by (intro conjI)
qed

subsection \<open>Negative TTL\<close>

text \<open>
  C10. For every configuration whose \<open>ttl\<close> is negative: \<^verbatim>\<open>parseConfig\<close> accepts the
  document whenever it accepts it without the \<open>ttl\<close>, and keeps the value; the
  single-server add hands the library a TXT record with a TTL which, read as an unsigned
  32-bit number, is \<open>ttl mod 2^32\<close>; and so does \<^verbatim>\<open>Present\<close>, for every server: no layer
  checks the sign.
\<close>

theorem negative_ttl_wraps:
  "sint ttl < 0 \<longrightarrow>
   parseConfig (Document (d\<lparr>doc_ttl := Some ttl\<rparr>)) =
     (case parseConfig (Document (d\<lparr>doc_ttl := None\<rparr>)) of
        Inl err \<Rightarrow> Inl err | Inr config \<Rightarrow> Inr (config\<lparr>TTL := ttl\<rparr>)) \<and>
   map (\<lambda>x. map uint (update_ttls (snd (snd x))))
     (exchanges (snd (RFC2136Client_AddTXTRecord c te fqdn val ttl))) =
     [[sint ttl mod 2 ^ 32]] \<and>
   (parseConfig (Config ch) = Inr config \<and> TTL config = ttl \<and>
    fst (getTSIGSecret s (ResourceNamespace ch) (TSIGSecretName config) (TSIGSecretKey config)) =
      Inr sec \<longrightarrow>
    map (\<lambda>x. map uint (update_ttls (snd (snd x)))) (exchanges (snd (Present s env ch))) =
      map (\<lambda>srv. [sint ttl mod 2 ^ 32]) (Servers config))"
proof (intro impI conjI)
  show "parseConfig (Document (d\<lparr>doc_ttl := Some ttl\<rparr>)) =
     (case parseConfig (Document (d\<lparr>doc_ttl := None\<rparr>)) of
        Inl err \<Rightarrow> Inl err | Inr config \<Rightarrow> Inr (config\<lparr>TTL := ttl\<rparr>))"
    by (simp add: parseConfig_def Unmarshal_def store_def Let_def)
next
  show "map (\<lambda>x. map uint (update_ttls (snd (snd x))))
     (exchanges (snd (RFC2136Client_AddTXTRecord c te fqdn val ttl))) =
     [[sint ttl mod 2 ^ 32]]"
    by (simp add: client_add_exchanges add_msg_eq update_ttls_def ucast_ttl)
next
  assume h: "parseConfig (Config ch) = Inr config \<and> TTL config = ttl \<and>
    fst (getTSIGSecret s (ResourceNamespace ch) (TSIGSecretName config) (TSIGSecretKey config)) =
      Inr sec"
  let ?m = "NewMultiServerDNS (Servers config) (Zone config) (TSIGKeyName config)
              (TSIGAlgorithm config) sec"
  let ?f = "\<lambda>q :: string \<times> string list \<times> string list \<times> 32 word list.
              map uint (snd (snd (snd q)))"
  from h have p: "parseConfig (Config ch) = Inr config"
    and g: "fst (getTSIGSecret s (ResourceNamespace ch) (TSIGSecretName config)
              (TSIGSecretKey config)) = Inr sec"
    and t: "TTL config = ttl"
    by simp_all
  have "map (\<lambda>x. map uint (update_ttls (snd (snd x)))) (exchanges (snd (Present s env ch))) =
     map ?f (map (\<lambda>srv. (srv @ '':53'', [Fqdn (m_zone ?m)], [Fqdn (ResolvedFQDN ch)],
        [ucast (TTL config)])) (servers ?m))"
    unfolding Present_dispatch [OF p g]
      coordinator_add_sent [of ?m env "ResolvedFQDN ch" "Key ch" "TTL config", symmetric]
    by (simp add: comp_def)
  then show "map (\<lambda>x. map uint (update_ttls (snd (snd x)))) (exchanges (snd (Present s env ch))) =
      map (\<lambda>srv. [sint ttl mod 2 ^ 32]) (Servers config)"
    by (simp add: New_fields comp_def t ucast_ttl)
qed

theorem negative_ttl_wraps_witness:
  "sint (- 1 :: 64 word) < 0 \<and>
   parseConfig (Config minus_one_request) = Inr (example_config\<lparr>TTL := - 1\<rparr>) \<and>
   map (\<lambda>x. map uint (update_ttls (snd (snd x))))
     (exchanges (snd (RFC2136Client_AddTXTRecord example_client (reply_with 0 False) acme_name
        ''tokenA'' (- 1)))) = [[4294967295]] \<and>
   map (\<lambda>x. map uint (update_ttls (snd (snd x))))
     (exchanges (snd (Present example_solver two_of_four minus_one_request))) = [[4294967295]]"
proof -
  have n: "sint (- 1 :: 64 word) < 0"
    by simp
  have v: "sint (- 1 :: 64 word) mod 2 ^ 32 = 4294967295"
    by simp
  have p: "parseConfig (Config minus_one_request) = Inr (example_config\<lparr>TTL := - 1\<rparr>)"
    by code_simp
  have g: "fst (getTSIGSecret example_solver (ResourceNamespace minus_one_request)
       (TSIGSecretName (example_config\<lparr>TTL := - 1\<rparr>))
       (TSIGSecretKey (example_config\<lparr>TTL := - 1\<rparr>))) = Inr ''c2VjcmV0''"
    by code_simp
  have t: "TTL (example_config\<lparr>TTL := - 1\<rparr>) = - 1"
    by simp
  have r: "Servers example_config = [''10.0.0.1'']"
    by (simp add: example_config_def)
  show ?thesis
    using n p g t negative_ttl_wraps
      [where ttl = "- 1" and ch = minus_one_request and config = "example_config\<lparr>TTL := - 1\<rparr>"
         and s = example_solver and sec = "''c2VjcmV0''" and env = two_of_four
         and c = example_client and te = "reply_with 0 False" and fqdn = acme_name
         and val = "''tokenA''" and d = example_document]
    unfolding v by (simp add: r)
qed

subsection \<open>What the log and the errors reveal\<close>

text \<open>
  C3, as stated, fails for the challenge key: two runs that differ in the challenge key
  only write different logs. \<^verbatim>\<open>Present\<close> and \<^verbatim>\<open>CleanUp\<close> log it in the field \<open>key\<close>, and
  the add path logs it in the field \<open>value\<close>.
\<close>

theorem challenge_key_is_logged:
  "log_lines (snd (Present example_solver all_noerror example_request)) \<noteq>
   log_lines (snd (Present example_solver all_noerror (example_request\<lparr>Key := ''tokenB''\<rparr>))) \<and>
   (InfoLevel, ''Presenting DNS01 challenge'',
     [zap_String ''fqdn'' ''_acme-challenge.app.example.com.'', zap_String ''key'' ''tokenA'',
      zap_String ''namespace'' ''cert-manager'']) \<in>
     set (log_lines (snd (Present example_solver all_noerror example_request))) \<and>
   (InfoLevel, ''Adding TXT record to multiple servers'',
     [zap_String ''fqdn'' ''_acme-challenge.app.example.com.'', zap_String ''value'' ''tokenA'',
      zap_Strings ''servers'' [''10.0.0.1'']]) \<in>
     set (log_lines (snd (Present example_solver all_noerror example_request))) \<and>
   (InfoLevel, ''Adding TXT record'',
     [zap_String ''fqdn'' ''_acme-challenge.app.example.com.'', zap_String ''value'' ''tokenA'',
      zap_String ''server'' ''10.0.0.1'', zap_String ''zone'' ''example.com'']) \<in>
     set (log_lines (snd (Present example_solver all_noerror example_request))) \<and>
   (InfoLevel, ''Cleaning up DNS01 challenge'',
     [zap_String ''fqdn'' ''_acme-challenge.app.example.com.'', zap_String ''key'' ''tokenA'',
      zap_String ''namespace'' ''cert-manager'']) \<in>
     set (log_lines (snd (CleanUp example_solver all_noerror example_request)))"
  by code_simp

text \<open>
  C3, amended. In every invocation of \<^verbatim>\<open>Present\<close> or \<^verbatim>\<open>CleanUp\<close> (the coordinator and
  the per-server client calls included) the code hands the TSIG secret to the DNS
  library only, and the log lines and the returned error depend on the secret only
  through what the library's exchanges return: in two runs that differ only in the
  values held by the secret store, and in which the library's exchanges return the same
  results, the log lines and the returned error are the same. (What the library
  returns can depend on the secret: it refuses a secret that is not base64 with an error
  of its own, which the code logs and returns.) The challenge key is logged: \<^verbatim>\<open>Present\<close>
  and \<^verbatim>\<open>CleanUp\<close> log it first of all, in the field \<open>key\<close>, and the coordinator's and the
  client's \<^verbatim>\<open>AddTXTRecord\<close> log it first of all, in the field \<open>value\<close>.
\<close>

theorem secret_reaches_log_and_error_through_library_only:
  "(library_blind_to f env \<longrightarrow>
      fst (Present \<lparr>client = Some (with_secrets f k)\<rparr> env ch) =
        fst (Present \<lparr>client = Some k\<rparr> env ch) \<and>
      log_lines (snd (Present \<lparr>client = Some (with_secrets f k)\<rparr> env ch)) =
        log_lines (snd (Present \<lparr>client = Some k\<rparr> env ch)) \<and>
      fst (CleanUp \<lparr>client = Some (with_secrets f k)\<rparr> env ch) =
        fst (CleanUp \<lparr>client = Some k\<rparr> env ch) \<and>
      log_lines (snd (CleanUp \<lparr>client = Some (with_secrets f k)\<rparr> env ch)) =
        log_lines (snd (CleanUp \<lparr>client = Some k\<rparr> env ch))) \<and>
   hd (log_lines (snd (Present s env ch))) =
     (InfoLevel, ''Presenting DNS01 challenge'',
      [zap_String ''fqdn'' (ResolvedFQDN ch), zap_String ''key'' (Key ch),
       zap_String ''namespace'' (ResourceNamespace ch)]) \<and>
   hd (log_lines (snd (CleanUp s env ch))) =
     (InfoLevel, ''Cleaning up DNS01 challenge'',
      [zap_String ''fqdn'' (ResolvedFQDN ch), zap_String ''key'' (Key ch),
       zap_String ''namespace'' (ResourceNamespace ch)]) \<and>
   hd (log_lines (snd (MultiServerDNS_AddTXTRecord m env fqdn val ttl))) =
     (InfoLevel, ''Adding TXT record to multiple servers'',
      [zap_String ''fqdn'' fqdn, zap_String ''value'' val, zap_Strings ''servers'' (servers m)]) \<and>
   hd (log_lines (snd (RFC2136Client_AddTXTRecord c te fqdn val ttl))) =
     (InfoLevel, ''Adding TXT record'',
      [zap_String ''fqdn'' fqdn, zap_String ''value'' val, zap_String ''server'' (server c),
       zap_String ''zone'' (zone c)])"
  using Present_secret_indep [of f env k ch] CleanUp_secret_indep [of f env k ch]
  by (simp add: Present_first_line CleanUp_first_line coordinator_add_first_line
      client_add_first_line)

theorem secret_reaches_log_and_error_through_library_only_witness:
  "library_blind_to other_secret all_noerror \<and>
   fst (Present \<lparr>client = Some (with_secrets other_secret example_store)\<rparr> all_noerror
          example_request) =
     fst (Present \<lparr>client = Some example_store\<rparr> all_noerror example_request) \<and>
   log_lines (snd (Present \<lparr>client = Some (with_secrets other_secret example_store)\<rparr>
          all_noerror example_request)) =
     log_lines (snd (Present \<lparr>client = Some example_store\<rparr> all_noerror example_request)) \<and>
   fst (Present \<lparr>client = Some example_store\<rparr> all_noerror example_request) = None \<and>
   snd (Present \<lparr>client = Some (with_secrets other_secret example_store)\<rparr> all_noerror
          example_request) \<noteq>
     snd (Present \<lparr>client = Some example_store\<rparr> all_noerror example_request)"
proof -
  have b: "library_blind_to other_secret all_noerror"
    by (simp add: library_blind_to_def all_noerror_def reply_with_def answering_def)
  have n: "fst (Present \<lparr>client = Some example_store\<rparr> all_noerror example_request) = None"
    by code_simp
  have d: "snd (Present \<lparr>client = Some (with_secrets other_secret example_store)\<rparr>
          all_noerror example_request) \<noteq>
     snd (Present \<lparr>client = Some example_store\<rparr> all_noerror example_request)"
    by code_simp
  from b secret_reaches_log_and_error_through_library_only
    [where f = other_secret and env = all_noerror and k = example_store
       and ch = example_request]
  have "fst (Present \<lparr>client = Some (with_secrets other_secret example_store)\<rparr> all_noerror
          example_request) =
     fst (Present \<lparr>client = Some example_store\<rparr> all_noerror example_request)"
    and "log_lines (snd (Present \<lparr>client = Some (with_secrets other_secret example_store)\<rparr>
          all_noerror example_request)) =
     log_lines (snd (Present \<lparr>client = Some example_store\<rparr> all_noerror example_request))"
    by blast+
  with b n d show ?thesis
    by (intro conjI)
qed

end
